theory Spec2Isabelle
  imports Main "HOL-Library.Multiset"
begin

section \<open>The chat window of src/components/chat/ChatWindow.tsx\<close>

text \<open>
  The component keeps one array of chat messages (React state \<open>messages\<close>) and a few
  mutable references. Events of the LiveKit room arrive one at a time: byte payloads
  of the data channel (\<open>handleDataReceived\<close>) and track notifications
  (\<open>handleTrackPublished\<close>, \<open>handleTrackSubscribed\<close>, ...). Each handler is
  embedded as a function from the state before the event to the state after it.

  Conventions of the embedding:
  \<^item> a JavaScript number is an \<open>int\<close> (the values are millisecond counts); an optional
    field is an \<open>option\<close>, \<open>None\<close> being \<open>undefined\<close>;
  \<^item> a string is the list of its UTF-8 bytes; \<open>trim\<close> and \<open>toLowerCase\<close> act on
    the ASCII range;
  \<^item> \<open>Date.now()\<close> is the argument \<open>now\<close> (one reading for one event) and
    \<open>Math.random().toString(36).substring(2, 9)\<close> is the argument \<open>rnd\<close>;
  \<^item> a state updater passed to \<open>setMessages\<close> runs once, when its event is handled;
  \<^item> \<open>Array.prototype.reverse\<close> reverses the array it is called on, so after
    \<open>prev.reverse()\<close> the name \<open>prev\<close> denotes the reversed list;
  \<^item> the fields of a payload have the types the handler expects of them (a text is a
    string, a duration a number), each of them possibly absent;
  \<^item> console output is not part of the state; where the evaluation of a log entry can
    throw, the exception is a result of sum type.
\<close>

subsection \<open>Messages\<close>

datatype msg_type = User | Agent

record LatencyMetrics =
  vad :: "int option"
  stt :: "int option"
  llm :: "int option"
  tts :: "int option"
  total :: "int option"
  userSpeechDuration :: "int option"
  agentResponseDuration :: "int option"

text \<open>
  \<open>ChatMessage\<close>: the fields \<open>id\<close>, \<open>type\<close> and \<open>text\<close> of the source carry the
  prefix \<open>msg_\<close> here.
\<close>

record ChatMessage =
  msg_id :: string
  msg_type :: msg_type
  msg_text :: string
  timestamp :: int
  latency :: "LatencyMetrics option"
  conversationId :: "string option"

text \<open>
  A metrics value of an event is a number or an object with an optional
  \<open>duration_ms\<close>; \<open>x?.duration_ms || x || 0\<close> may therefore yield the object itself.
\<close>

datatype stage_json = StageNum int | StageObj "int option"

record PipelineMetrics =
  pm_vad :: stage_json
  pm_stt :: stage_json
  pm_llm :: stage_json
  pm_tts :: stage_json
  pm_total :: int
  pm_conversationId :: string
  pm_createdAt :: int

subsection \<open>The decoded payload\<close>

datatype content_item = CStr string | COther

text \<open>A \<open>content\<close> field: an array, or some other truthy value.\<close>

datatype contents_json = Arr "content_item list" | NonArr

record item_json =
  item_role :: "string option"
  item_content :: "contents_json option"

record metrics_json =
  m_vad :: "stage_json option"
  m_stt :: "stage_json option"
  m_llm :: "stage_json option"
  m_tts :: "stage_json option"
  m_total_duration_ms :: "int option"
  m_total :: "int option"

text \<open>The object \<open>data\<close> that \<open>JSON.parse\<close> returns, with the fields the handler reads.\<close>

record data_json =
  d_type :: "string option"
  d_text :: "string option"
  d_timestamp :: "int option"
  d_latency :: "LatencyMetrics option"
  d_conversation_id :: "string option"
  d_conversationId :: "string option"
  d_item :: "item_json option"
  d_role :: "string option"
  d_content :: "contents_json option"
  d_metrics :: "metrics_json option"
  d_vad :: "stage_json option"
  d_stt :: "stage_json option"
  d_llm :: "stage_json option"
  d_tts :: "stage_json option"
  d_total_duration_ms :: "int option"
  d_total :: "int option"
  d_created_at :: "int option"

text \<open>A payload either fails to decode (\<open>JSON.parse\<close> throws) or decodes to an object.\<close>

datatype payload = Undecodable | Decoded data_json

subsection \<open>The state of the component\<close>

record state =
  messages :: "ChatMessage list"
  userSpeechEndRef :: "int option"
  agentResponseStartRef :: "int option"
  lastUserSpeechTimeRef :: "int option"
  trackPublishTimesRef :: "string \<rightharpoonup> int"
  trackSubscribeTimesRef :: "string \<rightharpoonup> int"
  pipelineMetricsRef :: "(string \<times> PipelineMetrics) list"

definition initialState :: state where
  "initialState =
     \<lparr>messages = [], userSpeechEndRef = None, agentResponseStartRef = None,
      lastUserSpeechTimeRef = None, trackPublishTimesRef = Map.empty,
      trackSubscribeTimesRef = Map.empty, pipelineMetricsRef = []\<rparr>"

subsection \<open>JavaScript helpers\<close>

text \<open>\<open>a || b\<close> on optional numbers: \<open>undefined\<close> and \<open>0\<close> are falsy.\<close>

definition truthyNum :: "int option \<Rightarrow> bool" where
  "truthyNum a = (case a of None \<Rightarrow> False | Some n \<Rightarrow> n \<noteq> 0)"

definition numOr :: "int option \<Rightarrow> int option \<Rightarrow> int option" where
  "numOr a b = (if truthyNum a then a else b)"

definition numOrElse :: "int option \<Rightarrow> int \<Rightarrow> int" where
  "numOrElse a d = (case a of None \<Rightarrow> d | Some n \<Rightarrow> if n \<noteq> 0 then n else d)"

text \<open>\<open>a || b\<close> on optional strings: \<open>undefined\<close> and the empty string are falsy.\<close>

definition truthyStr :: "string option \<Rightarrow> bool" where
  "truthyStr a = (case a of None \<Rightarrow> False | Some s \<Rightarrow> s \<noteq> [])"

definition strOr :: "string option \<Rightarrow> string option \<Rightarrow> string option" where
  "strOr a b = (if truthyStr a then a else b)"

text \<open>\<open>a || undefined\<close>.\<close>

definition strOrUndefined :: "string option \<Rightarrow> string option" where
  "strOrUndefined a = (if truthyStr a then a else None)"

definition isWhiteSpace :: "char \<Rightarrow> bool" where
  "isWhiteSpace c =
     (c = CHR 0x09 \<or> c = CHR 0x0A \<or> c = CHR 0x0B \<or> c = CHR 0x0C \<or> c = CHR 0x0D
      \<or> c = CHR 0x20)"

definition trim :: "string \<Rightarrow> string" where
  "trim s = rev (dropWhile isWhiteSpace (rev (dropWhile isWhiteSpace s)))"

definition lowerChar :: "char \<Rightarrow> char" where
  "lowerChar c =
     (case map_of (zip ''ABCDEFGHIJKLMNOPQRSTUVWXYZ'' ''abcdefghijklmnopqrstuvwxyz'') c of
        Some l \<Rightarrow> l
      | None \<Rightarrow> c)"

definition toLowerCase :: "string \<Rightarrow> string" where
  "toLowerCase s = map lowerChar s"

definition startsWith :: "string \<Rightarrow> string \<Rightarrow> bool" where
  "startsWith s sub = (take (length sub) s = sub)"

text \<open>\<open>String.prototype.includes\<close>.\<close>

fun includesStr :: "string \<Rightarrow> string \<Rightarrow> bool" where
  "includesStr [] sub = (sub = [])"
| "includesStr (c # cs) sub = (startsWith (c # cs) sub \<or> includesStr cs sub)"

text \<open>Decimal rendering of a number inside a template string.\<close>

fun digits :: "nat \<Rightarrow> string" where
  "digits n =
     (if n < 10 then [''0123456789'' ! n]
      else digits (n div 10) @ [''0123456789'' ! (n mod 10)])"

declare digits.simps [simp del]

definition showInt :: "int \<Rightarrow> string" where
  "showInt i = (if i < 0 then CHR ''-'' # digits (nat (- i)) else digits (nat i))"

text \<open>
  A JavaScript \<open>Map\<close> keeps its keys in insertion order; \<open>set\<close> on a present key
  replaces the value in place.
\<close>

fun mapSet :: "'k \<Rightarrow> 'v \<Rightarrow> ('k \<times> 'v) list \<Rightarrow> ('k \<times> 'v) list" where
  "mapSet k v [] = [(k, v)]"
| "mapSet k v (kv # kvs) = (if fst kv = k then (k, v) # kvs else kv # mapSet k v kvs)"

text \<open>\<open>Array.from(map.values()).pop()\<close>.\<close>

definition latestMetrics :: "(string \<times> PipelineMetrics) list \<Rightarrow> PipelineMetrics option" where
  "latestMetrics kvs = (if kvs = [] then None else Some (snd (last kvs)))"

definition emptyLatency :: LatencyMetrics where
  "emptyLatency =
     \<lparr>vad = None, stt = None, llm = None, tts = None, total = None,
      userSpeechDuration = None, agentResponseDuration = None\<rparr>"

text \<open>\<open>msg.latency\<close> read through \<open>?.\<close> or spread into an object literal.\<close>

definition latOf :: "ChatMessage \<Rightarrow> LatencyMetrics" where
  "latOf m = (case latency m of None \<Rightarrow> emptyLatency | Some l \<Rightarrow> l)"

definition dataLat :: "data_json \<Rightarrow> LatencyMetrics" where
  "dataLat d = (case d_latency d of None \<Rightarrow> emptyLatency | Some l \<Rightarrow> l)"

definition normalized :: "string \<Rightarrow> string" where
  "normalized s = toLowerCase (trim s)"

subsection \<open>User speech (lines 179-224)\<close>

definition userSpeechDuplicate :: "int \<Rightarrow> data_json \<Rightarrow> string \<Rightarrow> ChatMessage \<Rightarrow> bool" where
  "userSpeechDuplicate now d speechText m =
     (let timeDiff = \<bar>numOrElse (d_timestamp d) now - timestamp m\<bar>;
          textMatch = (toLowerCase (trim (msg_text m)) = toLowerCase speechText)
      in textMatch \<and> timeDiff < 2000)"

definition userSpeechUpdater ::
  "int \<Rightarrow> string \<Rightarrow> data_json \<Rightarrow> string \<Rightarrow> string option \<Rightarrow> ChatMessage list \<Rightarrow> ChatMessage list" where
  "userSpeechUpdater now rnd d speechText cid prev =
     (let recentDuplicate =
            find (userSpeechDuplicate now d speechText)
              (take 3 (rev (filter (\<lambda>m. msg_type m = User) prev)))
      in if recentDuplicate \<noteq> None then prev
         else prev @
           [\<lparr>msg_id = ''user-'' @ showInt now @ ''-'' @ rnd,
             msg_type = User,
             msg_text = speechText,
             timestamp = numOrElse (d_timestamp d) now,
             latency = Some (emptyLatency
               \<lparr>vad := vad (dataLat d), stt := stt (dataLat d),
                userSpeechDuration :=
                  Some (numOrElse (userSpeechDuration (dataLat d)) 0)\<rparr>),
             conversationId = cid\<rparr>])"

definition handleUserSpeech :: "int \<Rightarrow> string \<Rightarrow> state \<Rightarrow> data_json \<Rightarrow> string \<Rightarrow> state" where
  "handleUserSpeech now rnd s d txt =
     (let speechText = trim txt
      in if speechText = [] then s
         else
           let cid = strOrUndefined
                       (map_option pm_conversationId (latestMetrics (pipelineMetricsRef s)))
           in s\<lparr>userSpeechEndRef := Some now,
                lastUserSpeechTimeRef := Some now,
                messages := userSpeechUpdater now rnd d speechText cid (messages s),
                agentResponseStartRef := Some now\<rparr>)"

subsection \<open>Agent reply (lines 228-358)\<close>

text \<open>
  The text of the reply: \<open>None\<close> where the handler returns early (a
  \<open>conversation_item_added\<close> whose item is not an assistant message with an array
  of contents).
\<close>

fun firstString :: "content_item list \<Rightarrow> string option" where
  "firstString [] = None"
| "firstString (CStr c # cs) = Some c"
| "firstString (COther # cs) = firstString cs"

definition dataText :: "data_json \<Rightarrow> string" where
  "dataText d = trim (case d_text d of None \<Rightarrow> [] | Some t \<Rightarrow> t)"

definition replyTextOf :: "data_json \<Rightarrow> string option" where
  "replyTextOf d =
     (case (if d_type d = Some ''conversation_item_added'' then d_item d else None) of
        Some item \<Rightarrow>
          (let role = strOr (item_role item) (d_role d);
               contents = (case item_content item of
                             Some c \<Rightarrow> c
                           | None \<Rightarrow> (case d_content d of Some c \<Rightarrow> c | None \<Rightarrow> Arr []))
           in case contents of
                Arr cs \<Rightarrow>
                  if role = Some ''assistant''
                  then (case firstString cs of
                          Some c \<Rightarrow> Some (trim c)
                        | None \<Rightarrow> Some (dataText d))
                  else None
              | NonArr \<Rightarrow> None)
      | None \<Rightarrow> Some (dataText d))"

definition newAgentReply :: "int \<Rightarrow> string \<Rightarrow> data_json \<Rightarrow> string \<Rightarrow> string option \<Rightarrow> ChatMessage" where
  "newAgentReply now rnd d replyText cid =
     \<lparr>msg_id = ''agent-reply-'' @ showInt now @ ''-'' @ rnd,
      msg_type = Agent,
      msg_text = replyText,
      timestamp = numOrElse (d_timestamp d) now,
      latency = Some (emptyLatency
        \<lparr>llm := llm (dataLat d), tts := tts (dataLat d),
         agentResponseDuration := agentResponseDuration (dataLat d),
         total := total (dataLat d)\<rparr>),
      conversationId = cid\<rparr>"

text \<open>The object literal of lines 287-297: the merge of a reply into an existing message.\<close>

definition replyMerge :: "int \<Rightarrow> data_json \<Rightarrow> ChatMessage \<Rightarrow> ChatMessage" where
  "replyMerge now d m =
     m\<lparr>timestamp := numOrElse (d_timestamp d) now,
       latency := Some ((latOf m)
         \<lparr>llm := numOr (llm (dataLat d)) (llm (latOf m)),
          tts := numOr (tts (dataLat d)) (tts (latOf m)),
          agentResponseDuration :=
            numOr (agentResponseDuration (dataLat d)) (agentResponseDuration (latOf m)),
          total := numOr (total (dataLat d)) (total (latOf m))\<rparr>)\<rparr>"

definition resolveConversationId :: "(string \<times> PipelineMetrics) list \<Rightarrow> data_json \<Rightarrow> string option" where
  "resolveConversationId tbl d =
     strOrUndefined
       (strOr (map_option pm_conversationId (latestMetrics tbl)) (d_conversation_id d))"

definition agentReplyUpdater ::
  "int \<Rightarrow> string \<Rightarrow> data_json \<Rightarrow> (string \<times> PipelineMetrics) list \<Rightarrow> string \<Rightarrow>
   ChatMessage list \<Rightarrow> ChatMessage list" where
  "agentReplyUpdater now rnd d tbl replyText prev =
     (let cid = resolveConversationId tbl d
      in if replyText = [] then prev
         else case cid of
           Some c \<Rightarrow>
             (let prev1 = rev prev;
                  existingByConversationAndText =
                    find (\<lambda>m. msg_type m = Agent \<and> conversationId m = Some c \<and>
                               toLowerCase (trim (msg_text m)) = toLowerCase (trim replyText))
                      prev1
              in case (case existingByConversationAndText of
                         Some e \<Rightarrow>
                           if \<bar>numOrElse (d_timestamp d) now - timestamp e\<bar> < 2000
                           then Some e else None
                       | None \<Rightarrow> None) of
                   Some e \<Rightarrow>
                     map (\<lambda>m. if msg_id m = msg_id e then replyMerge now d m else m) prev1
                 | None \<Rightarrow>
                     (let prev2 = rev prev1;
                          existingByConversationOnly =
                            find (\<lambda>m. msg_type m = Agent \<and> conversationId m = Some c) prev2
                      in if (case existingByConversationOnly of
                               Some e \<Rightarrow> toLowerCase (trim (msg_text e)) \<noteq>
                                           toLowerCase (trim replyText)
                             | None \<Rightarrow> False)
                         then prev2 @ [newAgentReply now rnd d replyText cid]
                         else prev2 @ [newAgentReply now rnd d replyText cid]))
         | None \<Rightarrow> prev @ [newAgentReply now rnd d replyText cid])"

definition handleAgentReply :: "int \<Rightarrow> string \<Rightarrow> state \<Rightarrow> data_json \<Rightarrow> state" where
  "handleAgentReply now rnd s d =
     (case replyTextOf d of
        None \<Rightarrow> s
      | Some replyText \<Rightarrow>
          s\<lparr>messages :=
              agentReplyUpdater now rnd d (pipelineMetricsRef s) replyText (messages s)\<rparr>)"

subsection \<open>Agent speech (lines 362-442)\<close>

text \<open>The object literal of lines 391-402 and 419-430.\<close>

definition speechMerge :: "data_json \<Rightarrow> string \<Rightarrow> ChatMessage \<Rightarrow> ChatMessage" where
  "speechMerge d speechText m =
     m\<lparr>msg_text := (if speechText \<noteq> [] then speechText else msg_text m),
       timestamp := numOrElse (d_timestamp d) (timestamp m),
       latency := Some ((latOf m)
         \<lparr>llm := numOr (llm (dataLat d)) (llm (latOf m)),
          tts := numOr (tts (dataLat d)) (tts (latOf m)),
          agentResponseDuration :=
            numOr (agentResponseDuration (dataLat d)) (agentResponseDuration (latOf m)),
          total := numOr (total (dataLat d)) (total (latOf m))\<rparr>)\<rparr>"

text \<open>
  With a conversation id the updater calls \<open>prev.reverse()\<close> once; where it then falls
  through to \<open>return prev\<close>, the array it returns is the reversed one.
\<close>

definition agentSpeechUpdater ::
  "int \<Rightarrow> data_json \<Rightarrow> (string \<times> PipelineMetrics) list \<Rightarrow> string \<Rightarrow>
   ChatMessage list \<Rightarrow> ChatMessage list" where
  "agentSpeechUpdater now d tbl speechText prev =
     (case resolveConversationId tbl d of
        Some c \<Rightarrow>
          (let prev1 = rev prev;
               existingByConversationId =
                 find (\<lambda>m. msg_type m = Agent \<and> conversationId m = Some c) prev1
           in case existingByConversationId of
                Some e \<Rightarrow>
                  if \<bar>numOrElse (d_timestamp d) now - timestamp e\<bar> < 5000
                  then map (\<lambda>m. if msg_id m = msg_id e then speechMerge d speechText m else m)
                         prev1
                  else prev1
              | None \<Rightarrow> prev1)
      | None \<Rightarrow>
          (case take 1 (rev (filter (\<lambda>m. msg_type m = Agent) prev)) of
             recentAgentMessage # _ \<Rightarrow>
               if \<bar>numOrElse (d_timestamp d) now - timestamp recentAgentMessage\<bar> < 5000
               then map (\<lambda>m. if msg_id m = msg_id recentAgentMessage
                              then speechMerge d speechText m else m) prev
               else prev
           | [] \<Rightarrow> prev))"

definition handleAgentSpeech :: "int \<Rightarrow> state \<Rightarrow> data_json \<Rightarrow> state" where
  "handleAgentSpeech now s d =
     (let speechText = dataText d
      in if speechText = [] then s
         else s\<lparr>messages :=
                  agentSpeechUpdater now d (pipelineMetricsRef s) speechText (messages s)\<rparr>)"

subsection \<open>Pipeline metrics (lines 446-560)\<close>

text \<open>\<open>x?.duration_ms || x || 0\<close>.\<close>

definition stageMs :: "stage_json option \<Rightarrow> stage_json" where
  "stageMs x =
     (case x of
        None \<Rightarrow> StageNum 0
      | Some (StageNum n) \<Rightarrow> StageNum n
      | Some (StageObj dur) \<Rightarrow> (if truthyNum dur then StageNum (the dur) else StageObj dur))"

text \<open>
  \<open>metrics.vad > 0 ? metrics.vad : (msg.latency?.vad || 0)\<close>; an object compared
  with \<open>0\<close> converts to \<open>NaN\<close>, and the comparison is false.
\<close>

definition pickStage :: "stage_json \<Rightarrow> int option \<Rightarrow> int" where
  "pickStage x old =
     (case x of
        StageNum n \<Rightarrow> if n > 0 then n else numOrElse old 0
      | StageObj _ \<Rightarrow> numOrElse old 0)"

definition pickTotal :: "int \<Rightarrow> int option \<Rightarrow> int" where
  "pickTotal n old = (if n > 0 then n else numOrElse old 0)"

definition metricsLatency :: "PipelineMetrics \<Rightarrow> ChatMessage \<Rightarrow> LatencyMetrics" where
  "metricsLatency metrics m =
     (latOf m)
       \<lparr>vad := Some (pickStage (pm_vad metrics) (vad (latOf m))),
        stt := Some (pickStage (pm_stt metrics) (stt (latOf m))),
        llm := Some (pickStage (pm_llm metrics) (llm (latOf m))),
        tts := Some (pickStage (pm_tts metrics) (tts (latOf m))),
        total := Some (pickTotal (pm_total metrics) (total (latOf m)))\<rparr>"

text \<open>
  The record built from the event: \<open>None\<close> where the flat shape has no conversation
  id and the handler returns.
\<close>

definition metricsOf :: "int \<Rightarrow> data_json \<Rightarrow> PipelineMetrics option" where
  "metricsOf now d =
     (let conversationId = strOr (d_conversation_id d) (d_conversationId d)
      in case d_metrics d of
           Some metricsObj \<Rightarrow>
             Some \<lparr>pm_vad = stageMs (m_vad metricsObj),
                   pm_stt = stageMs (m_stt metricsObj),
                   pm_llm = stageMs (m_llm metricsObj),
                   pm_tts = stageMs (m_tts metricsObj),
                   pm_total =
                     numOrElse (numOr (m_total_duration_ms metricsObj) (m_total metricsObj)) 0,
                   pm_conversationId =
                     (if truthyStr conversationId then the conversationId
                      else ''conv-'' @ showInt now),
                   pm_createdAt = numOrElse (numOr (d_timestamp d) (d_created_at d)) now\<rparr>
         | None \<Rightarrow>
             if \<not> truthyStr conversationId then None
             else
               Some \<lparr>pm_vad = stageMs (d_vad d),
                     pm_stt = stageMs (d_stt d),
                     pm_llm = stageMs (d_llm d),
                     pm_tts = stageMs (d_tts d),
                     pm_total = numOrElse (numOr (d_total_duration_ms d) (d_total d)) 0,
                     pm_conversationId = the conversationId,
                     pm_createdAt = numOrElse (d_created_at d) now\<rparr>)"

definition metricsUpdater :: "PipelineMetrics \<Rightarrow> ChatMessage list \<Rightarrow> ChatMessage list" where
  "metricsUpdater metrics prev =
     (let updated =
            map (\<lambda>m. if conversationId m = Some (pm_conversationId metrics)
                      then m\<lparr>latency := Some (metricsLatency metrics m)\<rparr> else m) prev;
          hasMatchingMessage =
            list_ex (\<lambda>m. conversationId m = Some (pm_conversationId metrics)) prev
      in if \<not> hasMatchingMessage then
           (let recentAgentMessages =
                  take 3 (rev (filter (\<lambda>m. msg_type m = Agent) updated));
                matchingAgentMessage =
                  find (\<lambda>m. \<bar>pm_createdAt metrics - timestamp m\<bar> < 10000) recentAgentMessages
            in case matchingAgentMessage of
                 Some a \<Rightarrow>
                   map (\<lambda>m. if msg_id m = msg_id a
                             then m\<lparr>conversationId := Some (pm_conversationId metrics),
                                    latency := Some (metricsLatency metrics m)\<rparr>
                             else m) updated
               | None \<Rightarrow> updated)
         else updated)"

definition handlePipelineMetrics :: "int \<Rightarrow> state \<Rightarrow> data_json \<Rightarrow> state" where
  "handlePipelineMetrics now s d =
     (case metricsOf now d of
        None \<Rightarrow> s
      | Some metrics \<Rightarrow>
          s\<lparr>pipelineMetricsRef :=
              mapSet (pm_conversationId metrics) metrics (pipelineMetricsRef s),
            messages := metricsUpdater metrics (messages s)\<rparr>)"

subsection \<open>The data-channel handler (lines 163-564)\<close>

text \<open>
  The four \<open>if\<close> statements of the handler compare \<open>data.type\<close> with different
  literals, so at most one of them runs: they form one chain here.
\<close>

definition handleData :: "int \<Rightarrow> string \<Rightarrow> state \<Rightarrow> data_json \<Rightarrow> state" where
  "handleData now rnd s d =
     (if d_type d = Some ''user_speech'' \<and> truthyStr (d_text d)
      then handleUserSpeech now rnd s d (the (d_text d))
      else if d_type d = Some ''agent_reply'' \<or> d_type d = Some ''conversation_item_added''
      then handleAgentReply now rnd s d
      else if d_type d = Some ''agent_speech''
      then handleAgentSpeech now s d
      else if d_type d = Some ''pipeline_metrics'' \<or> d_type d = Some ''metrics_collected''
      then handlePipelineMetrics now s d
      else s)"

text \<open>The \<open>try\<close> block: a payload that does not decode is logged and changes nothing.\<close>

definition handleDataReceived :: "int \<Rightarrow> string \<Rightarrow> state \<Rightarrow> payload \<Rightarrow> state" where
  "handleDataReceived now rnd s p =
     (case p of Undecodable \<Rightarrow> s | Decoded d \<Rightarrow> handleData now rnd s d)"

subsection \<open>Track notifications (lines 577-680)\<close>

datatype track_kind = Audio | Video | UnknownKind

text \<open>
  \<open>updated.reverse().find(m => m.type === 'user')\<close> followed by the assignment to
  \<open>lastUserMessage.latency.total\<close>, on the reversed copy.
\<close>

fun setFirstUserTotal :: "int \<Rightarrow> ChatMessage list \<Rightarrow> ChatMessage list" where
  "setFirstUserTotal responseDelay [] = []"
| "setFirstUserTotal responseDelay (m # ms) =
     (if msg_type m = User
      then (case latency m of
              Some l \<Rightarrow> m\<lparr>latency := Some (l\<lparr>total := Some responseDelay\<rparr>)\<rparr>
            | None \<Rightarrow> m) # ms
      else m # setFirstUserTotal responseDelay ms)"

definition trackPublishedUpdater :: "int \<Rightarrow> ChatMessage list \<Rightarrow> ChatMessage list" where
  "trackPublishedUpdater responseDelay prev = rev (setFirstUserTotal responseDelay (rev prev))"

definition handleTrackPublished :: "int \<Rightarrow> state \<Rightarrow> string \<Rightarrow> track_kind \<Rightarrow> bool \<Rightarrow> state" where
  "handleTrackPublished now s trackSid kind isLocal =
     (let s1 = s\<lparr>trackPublishTimesRef := (trackPublishTimesRef s)(trackSid \<mapsto> now)\<rparr>
      in if \<not> isLocal \<and> kind = Audio \<and> truthyNum (lastUserSpeechTimeRef s)
         then
           (let responseDelay = now - the (lastUserSpeechTimeRef s)
            in s1\<lparr>agentResponseStartRef := Some now,
                  messages := trackPublishedUpdater responseDelay (messages s)\<rparr>)
         else s1)"

text \<open>The text of line 637, as the bytes of the source file.\<close>

definition agentRepliedText :: string where
  "agentRepliedText =
     [CHR 0xC3, CHR 0xB0, CHR 0xC5, CHR 0xB8, CHR 0xE2, CHR 0x80, CHR 0x9D, CHR 0xC5, CHR 0xA0]
     @ '' Agent javob berdi''"

definition handleTrackSubscribed :: "int \<Rightarrow> state \<Rightarrow> string \<Rightarrow> track_kind \<Rightarrow> bool \<Rightarrow> state" where
  "handleTrackSubscribed now s trackSid kind isLocal =
     (if isLocal then s
      else
        (let publishTime = trackPublishTimesRef s trackSid;
             s1 = (if truthyNum publishTime \<and> kind = Audio \<and> truthyNum (lastUserSpeechTimeRef s)
                   then s\<lparr>messages := messages s @
                     [\<lparr>msg_id = ''agent-'' @ showInt now,
                       msg_type = Agent,
                       msg_text = agentRepliedText,
                       timestamp = now,
                       latency = Some (emptyLatency
                         \<lparr>total := Some (now - the (lastUserSpeechTimeRef s)),
                          agentResponseDuration :=
                            (if truthyNum (agentResponseStartRef s)
                             then Some (now - the (agentResponseStartRef s)) else None)\<rparr>),
                       conversationId = None\<rparr>]\<rparr>
                   else s)
         in s1\<lparr>trackSubscribeTimesRef := (trackSubscribeTimesRef s1)(trackSid \<mapsto> now)\<rparr>))"

text \<open>An event of the room: a payload of the data channel or a track notification.\<close>

datatype event =
    DataReceived payload
  | TrackPublished string track_kind bool
  | TrackSubscribed string track_kind bool
  | TrackUnpublished string track_kind bool
  | TrackMuted string track_kind bool
  | TrackUnmuted string track_kind bool

fun handleEvent :: "int \<Rightarrow> string \<Rightarrow> state \<Rightarrow> event \<Rightarrow> state" where
  "handleEvent now rnd s (DataReceived p) = handleDataReceived now rnd s p"
| "handleEvent now rnd s (TrackPublished sid kind isLocal) =
     handleTrackPublished now s sid kind isLocal"
| "handleEvent now rnd s (TrackSubscribed sid kind isLocal) =
     handleTrackSubscribed now s sid kind isLocal"
| "handleEvent now rnd s (TrackUnpublished sid kind isLocal) = s"
| "handleEvent now rnd s (TrackMuted sid kind isLocal) = s"
| "handleEvent now rnd s (TrackUnmuted sid kind isLocal) = s"

subsection \<open>The displayed list (lines 50-140)\<close>

text \<open>The marker of line 59, as the bytes of the source file.\<close>

definition hourglass :: string where
  "hourglass = [CHR 0xC3, CHR 0xA2, CHR 0xC2, CHR 0xB3]"

definition isNearDuplicate :: "ChatMessage \<Rightarrow> ChatMessage \<Rightarrow> bool" where
  "isNearDuplicate msg m =
     (msg_type m = msg_type msg \<and>
      toLowerCase (trim (msg_text m)) = toLowerCase (trim (msg_text msg)) \<and>
      \<bar>timestamp m - timestamp msg\<bar> < 3000)"

text \<open>
  \<open>new Date(t).toISOString()\<close>, evaluated for the log entry of a skipped duplicate,
  throws a \<open>RangeError\<close> when \<open>t\<close> is not a valid time value, that is beyond
  8.64e15 ms on either side of the epoch.
\<close>

datatype js_error = RangeError

definition invalidDate :: "int \<Rightarrow> bool" where
  "invalidDate t = (\<bar>t\<bar> > 8640000000000000)"

text \<open>
  The loop of \<open>filteredMessages\<close>, with the array \<open>filtered\<close> and the map
  \<open>seenConversationPairs\<close> as accumulators. \<open>filtered.reverse()\<close> reverses
  \<open>filtered\<close> itself in every iteration that reaches the duplicate check.
\<close>

fun filterLoop ::
  "ChatMessage list \<Rightarrow> ChatMessage list \<Rightarrow> (string \<rightharpoonup> string) \<Rightarrow>
   js_error + ChatMessage list" where
  "filterLoop [] filtered seen = Inr filtered"
| "filterLoop (msg # rest) filtered seen =
     (if msg_text msg = [] \<or> trim (msg_text msg) = [] then filterLoop rest filtered seen
      else if includesStr (msg_text msg) hourglass \<or>
              includesStr (msg_text msg) ''Agent javob bermoqda''
      then filterLoop rest filtered seen
      else
        (let normalizedText = toLowerCase (trim (msg_text msg));
             filtered1 = rev filtered;
             isDuplicate = list_ex (isNearDuplicate msg) (take 10 filtered1)
         in if \<not> isDuplicate \<and> msg_type msg = Agent \<and> truthyStr (conversationId msg)
            then
              (if seen (the (conversationId msg)) = Some normalizedText
               then filterLoop rest filtered1 seen
               else filterLoop rest (filtered1 @ [msg])
                      (seen(the (conversationId msg) \<mapsto> normalizedText)))
            else if \<not> isDuplicate then filterLoop rest (filtered1 @ [msg]) seen
            else if invalidDate (timestamp msg) then Inl RangeError
            else filterLoop rest filtered1 seen))"

definition filteredMessages :: "ChatMessage list \<Rightarrow> js_error + ChatMessage list" where
  "filteredMessages msgs = filterLoop msgs [] Map.empty"

text \<open>The comparison function of lines 109-139.\<close>

definition compareFn :: "ChatMessage \<Rightarrow> ChatMessage \<Rightarrow> int" where
  "compareFn a b =
     (let timeDiff = timestamp a - timestamp b
      in if \<bar>timeDiff\<bar> > 1000 then timeDiff
         else if msg_type a = User \<and> msg_type b = Agent then - 1
         else if msg_type a = Agent \<and> msg_type b = User then 1
         else if msg_type a = User \<and> msg_type b = User then timeDiff
         else if msg_type a = Agent \<and> msg_type b = Agent then
           (if truthyStr (conversationId a) \<and> truthyStr (conversationId b) \<and>
               conversationId a = conversationId b
            then timeDiff else timeDiff)
         else timeDiff)"

text \<open>
  \<open>Array.prototype.sort\<close> with a comparison function: the sort is stable, and an
  element \<open>x\<close> goes before \<open>y\<close> when the function is negative on \<open>(x, y)\<close>. For a
  consistent comparison function the result is the one of a stable insertion sort.
\<close>

fun insertBy :: "('a \<Rightarrow> 'a \<Rightarrow> int) \<Rightarrow> 'a \<Rightarrow> 'a list \<Rightarrow> 'a list" where
  "insertBy cmp x [] = [x]"
| "insertBy cmp x (y # ys) = (if cmp x y \<le> 0 then x # y # ys else y # insertBy cmp x ys)"

definition sortBy :: "('a \<Rightarrow> 'a \<Rightarrow> int) \<Rightarrow> 'a list \<Rightarrow> 'a list" where
  "sortBy cmp xs = foldr (insertBy cmp) xs []"

definition sortedMessages :: "ChatMessage list \<Rightarrow> js_error + ChatMessage list" where
  "sortedMessages msgs =
     (case filteredMessages msgs of
        Inl e \<Rightarrow> Inl e
      | Inr filtered \<Rightarrow> Inr (sortBy compareFn filtered))"

section \<open>Notions used by the statements\<close>

text \<open>A payload object with every field absent, and the events built from it.\<close>

definition emptyData :: data_json where
  "emptyData =
     \<lparr>d_type = None, d_text = None, d_timestamp = None, d_latency = None,
      d_conversation_id = None, d_conversationId = None, d_item = None, d_role = None,
      d_content = None, d_metrics = None, d_vad = None, d_stt = None, d_llm = None,
      d_tts = None, d_total_duration_ms = None, d_total = None, d_created_at = None\<rparr>"

definition userSpeechEvent :: "string \<Rightarrow> int \<Rightarrow> data_json" where
  "userSpeechEvent t ts =
     emptyData\<lparr>d_type := Some ''user_speech'', d_text := Some t, d_timestamp := Some ts\<rparr>"

definition agentReplyEvent :: "string \<Rightarrow> string option \<Rightarrow> int \<Rightarrow> LatencyMetrics option \<Rightarrow> data_json" where
  "agentReplyEvent t cid ts lat =
     emptyData\<lparr>d_type := Some ''agent_reply'', d_text := Some t, d_conversation_id := cid,
       d_timestamp := Some ts, d_latency := lat\<rparr>"

definition agentSpeechEvent :: "string \<Rightarrow> string option \<Rightarrow> int \<Rightarrow> data_json" where
  "agentSpeechEvent t cid ts =
     emptyData\<lparr>d_type := Some ''agent_speech'', d_text := Some t, d_conversation_id := cid,
       d_timestamp := Some ts\<rparr>"

definition isReplyEvent :: "data_json \<Rightarrow> bool" where
  "isReplyEvent d =
     (d_type d = Some ''agent_reply'' \<or> d_type d = Some ''conversation_item_added'')"

text \<open>An agent message of conversation \<open>c\<close> whose normalized text is that of \<open>t\<close>.\<close>

definition sameReply :: "string \<Rightarrow> string \<Rightarrow> ChatMessage \<Rightarrow> bool" where
  "sameReply c t m =
     (msg_type m = Agent \<and> conversationId m = Some c \<and> normalized (msg_text m) = normalized t)"

text \<open>
  The message a reply is merged into. \<open>prev.reverse().find(...)\<close> searches the stored
  array from its last element: the target is the agent message of the conversation with
  the same normalized text that stands last in the array, when its timestamp is within
  2000 ms of the event's.
\<close>

definition duplicateReplyTarget ::
  "int \<Rightarrow> data_json \<Rightarrow> string \<Rightarrow> string \<Rightarrow> ChatMessage list \<Rightarrow> ChatMessage option" where
  "duplicateReplyTarget now d c replyText prev =
     (case find (sameReply c replyText) (rev prev) of
        Some e \<Rightarrow> if \<bar>numOrElse (d_timestamp d) now - timestamp e\<bar> < 2000 then Some e else None
      | None \<Rightarrow> None)"

text \<open>
  The message an \<open>agent_speech\<close> event refines. Both branches of the handler search
  the stored array from its last element: with a resolved conversation id the target is
  the agent message carrying it that stands last in the array, without one the agent
  message that stands last; in both cases only when its timestamp is within 5000 ms of
  the event's. The array is stored in the order of arrival only as long as no updater has
  returned it reversed, so the message that stands last need not be the one that arrived
  last.
\<close>

definition refinementTarget ::
  "int \<Rightarrow> data_json \<Rightarrow> (string \<times> PipelineMetrics) list \<Rightarrow> ChatMessage list \<Rightarrow> ChatMessage option" where
  "refinementTarget now d tbl prev =
     (case (case resolveConversationId tbl d of
              Some c \<Rightarrow> find (\<lambda>m. msg_type m = Agent \<and> conversationId m = Some c) (rev prev)
            | None \<Rightarrow> find (\<lambda>m. msg_type m = Agent) (rev prev)) of
        Some e \<Rightarrow> if \<bar>numOrElse (d_timestamp d) now - timestamp e\<bar> < 5000 then Some e else None
      | None \<Rightarrow> None)"


text \<open>
  The five stage fields of a latency record, and the value a payload carries for one of
  them: for a metrics event the number of the normalized record (an object that stands
  where a number is expected carries none), for every other event the field of
  \<open>data.latency\<close>.
\<close>

datatype lat_field = FVad | FStt | FLlm | FTts | FTotal

fun fieldOf :: "lat_field \<Rightarrow> LatencyMetrics \<Rightarrow> int option" where
  "fieldOf FVad l = vad l"
| "fieldOf FStt l = stt l"
| "fieldOf FLlm l = llm l"
| "fieldOf FTts l = tts l"
| "fieldOf FTotal l = total l"

fun stageNumber :: "stage_json \<Rightarrow> int option" where
  "stageNumber (StageNum n) = Some n"
| "stageNumber (StageObj dur) = None"

fun metricsField :: "lat_field \<Rightarrow> PipelineMetrics \<Rightarrow> int option" where
  "metricsField FVad pm = stageNumber (pm_vad pm)"
| "metricsField FStt pm = stageNumber (pm_stt pm)"
| "metricsField FLlm pm = stageNumber (pm_llm pm)"
| "metricsField FTts pm = stageNumber (pm_tts pm)"
| "metricsField FTotal pm = Some (pm_total pm)"

definition isMetricsEvent :: "data_json \<Rightarrow> bool" where
  "isMetricsEvent d =
     (d_type d = Some ''pipeline_metrics'' \<or> d_type d = Some ''metrics_collected'')"

definition isMetricsPayload :: "payload \<Rightarrow> bool" where
  "isMetricsPayload p = (case p of Undecodable \<Rightarrow> False | Decoded d \<Rightarrow> isMetricsEvent d)"

definition carriedValue :: "int \<Rightarrow> payload \<Rightarrow> lat_field \<Rightarrow> int option" where
  "carriedValue now p f =
     (case p of
        Undecodable \<Rightarrow> None
      | Decoded d \<Rightarrow>
          if isMetricsEvent d
          then (case metricsOf now d of None \<Rightarrow> None | Some pm \<Rightarrow> metricsField f pm)
          else fieldOf f (dataLat d))"

text \<open>
  A message \<open>m\<close> and what a payload made of it, \<open>m'\<close>: the id is the same, and a stage
  field that held a positive value either holds it still or holds the value the payload
  carries for that field, which is then not zero, and positive if the payload is a
  metrics event.
\<close>

definition keepsPositive :: "int \<Rightarrow> payload \<Rightarrow> ChatMessage \<Rightarrow> ChatMessage \<Rightarrow> bool" where
  "keepsPositive now p m m' =
     (msg_id m' = msg_id m \<and>
      (\<forall>f v. fieldOf f (latOf m) = Some v \<and> 0 < v \<longrightarrow>
         fieldOf f (latOf m') = Some v \<or>
         (\<exists>w. carriedValue now p f = Some w \<and> w \<noteq> 0 \<and> (isMetricsPayload p \<longrightarrow> 0 < w) \<and>
              fieldOf f (latOf m') = Some w)))"

text \<open>When \<open>handleTrackSubscribed\<close> appends its message.\<close>

definition subscribeAppends :: "state \<Rightarrow> string \<Rightarrow> track_kind \<Rightarrow> bool \<Rightarrow> bool" where
  "subscribeAppends s sid kind isLocal =
     (\<not> isLocal \<and> kind = Audio \<and> truthyNum (trackPublishTimesRef s sid) \<and>
      truthyNum (lastUserSpeechTimeRef s))"

text \<open>The three events of the scenario of the specification, in their order.\<close>

definition scenarioMetrics :: data_json where
  "scenarioMetrics =
     emptyData\<lparr>d_type := Some ''pipeline_metrics'', d_conversation_id := Some ''c1'',
       d_vad := Some (StageNum 50), d_stt := Some (StageNum 120),
       d_llm := Some (StageNum 300), d_tts := Some (StageNum 200),
       d_total_duration_ms := Some 670, d_created_at := Some 1700\<rparr>"

definition scenarioRun :: "int \<Rightarrow> string \<Rightarrow> int \<Rightarrow> string \<Rightarrow> int \<Rightarrow> string \<Rightarrow> state" where
  "scenarioRun n1 r1 n2 r2 n3 r3 =
     handleDataReceived n3 r3
       (handleDataReceived n2 r2
          (handleDataReceived n1 r1 initialState (Decoded (userSpeechEvent ''salom'' 1000)))
          (Decoded scenarioMetrics))
       (Decoded (agentReplyEvent ''salom, qandaysiz?'' None 1800 None))"

text \<open>
  A state with one user message in which the remote audio track \<open>TR_1\<close> has been
  published.
\<close>

definition trackState :: state where
  "trackState =
     handleEvent 1500 []
       (handleEvent 1000 ''abc'' initialState
          (DataReceived (Decoded (userSpeechEvent ''salom'' 1000))))
       (TrackPublished ''TR_1'' Audio False)"

text \<open>
  In that state the \<open>user_speech\<close> salom is delivered once more, at 2000, and in the
  same millisecond the remote audio track \<open>TR_2\<close> is published.
\<close>

definition republishedState :: state where
  "republishedState =
     handleEvent 2000 []
       (handleEvent 2000 ''def'' trackState
          (DataReceived (Decoded (userSpeechEvent ''salom'' 1000))))
       (TrackPublished ''TR_2'' Audio False)"

text \<open>
  The state after one \<open>agent_reply\<close> with the text hello, received at 1000 on the empty
  collection.
\<close>

definition oneReplyState :: "string option \<Rightarrow> LatencyMetrics \<Rightarrow> state" where
  "oneReplyState cid l =
     handleDataReceived 1000 ''r1'' initialState
       (Decoded (agentReplyEvent ''hello'' cid 1000 (Some l)))"


text \<open>
  Two \<open>user_speech\<close> events with the text salom whose timestamps, 2999 ms apart, lie
  beyond the last valid time value of a \<open>Date\<close> (8640000000000000).
\<close>

definition farSpeechFirst :: state where
  "farSpeechFirst =
     handleDataReceived 1000 ''abc'' initialState
       (Decoded (userSpeechEvent ''salom'' 8640000000000001))"

definition farSpeechRun :: state where
  "farSpeechRun =
     handleDataReceived 2000 ''def'' farSpeechFirst
       (Decoded (userSpeechEvent ''salom'' 8640000000003000))"

text \<open>
  Eleven user messages with different texts, 100 ms apart, and a twelfth user message
  with a chosen text.
\<close>

definition userTurn :: "string \<Rightarrow> string \<Rightarrow> int \<Rightarrow> ChatMessage" where
  "userTurn i t ts =
     \<lparr>msg_id = i, msg_type = User, msg_text = t, timestamp = ts, latency = None,
      conversationId = None\<rparr>"

definition elevenTurns :: "ChatMessage list" where
  "elevenTurns =
     [userTurn ''m01'' ''bir'' 100, userTurn ''m02'' ''ikki'' 200, userTurn ''m03'' ''uch'' 300,
      userTurn ''m04'' ''tort'' 400, userTurn ''m05'' ''besh'' 500, userTurn ''m06'' ''olti'' 600,
      userTurn ''m07'' ''yetti'' 700, userTurn ''m08'' ''sakkiz'' 800,
      userTurn ''m09'' ''toqqiz'' 900, userTurn ''m10'' ''on'' 1000,
      userTurn ''m11'' ''on bir'' 1100]"

text \<open>A user message and an agent message half a second apart.\<close>

definition humanTurn :: ChatMessage where
  "humanTurn =
     \<lparr>msg_id = ''user-1000-abc'', msg_type = User, msg_text = ''salom'', timestamp = 1000,
      latency = None, conversationId = None\<rparr>"

definition agentTurn :: ChatMessage where
  "agentTurn =
     \<lparr>msg_id = ''agent-reply-1500-def'', msg_type = Agent, msg_text = ''va alaykum'',
      timestamp = 1500, latency = None, conversationId = None\<rparr>"

section \<open>Evaluation and shared lemmas\<close>

lemmas js_defs = truthyNum_def numOr_def numOrElse_def truthyStr_def strOr_def
  strOrUndefined_def trim_def isWhiteSpace_def toLowerCase_def lowerChar_def startsWith_def
  latestMetrics_def emptyLatency_def latOf_def dataLat_def dataText_def normalized_def

lemmas event_defs = emptyData_def userSpeechEvent_def agentReplyEvent_def agentSpeechEvent_def

lemmas handler_defs = handleDataReceived_def handleData_def handleUserSpeech_def
  userSpeechUpdater_def userSpeechDuplicate_def handleAgentReply_def replyTextOf_def
  agentReplyUpdater_def newAgentReply_def replyMerge_def resolveConversationId_def
  handleAgentSpeech_def agentSpeechUpdater_def speechMerge_def handlePipelineMetrics_def
  metricsOf_def metricsUpdater_def metricsLatency_def stageMs_def pickStage_def pickTotal_def

lemmas view_defs = filteredMessages_def sortedMessages_def sortBy_def compareFn_def
  isNearDuplicate_def hourglass_def invalidDate_def

lemma digits_less: "n < 10 \<Longrightarrow> digits n = [''0123456789'' ! n]"
  by (simp add: digits.simps)

lemma digits_more:
  "\<not> n < 10 \<Longrightarrow> digits n = digits (n div 10) @ [''0123456789'' ! (n mod 10)]"
  by (subst digits.simps) simp

lemmas show_defs = showInt_def digits_less digits_more

lemma find_None_list_ex: "find P xs = None \<longleftrightarrow> \<not> list_ex P xs"
  by (induction xs) auto


lemma list_ex_rev: "list_ex P (rev xs) = list_ex P xs"
  by (simp add: list_ex_iff)



lemma take1_filter: "take 1 (filter P xs) = (case find P xs of Some e \<Rightarrow> [e] | None \<Rightarrow> [])"
  by (induction xs) auto

lemma take1_rev_filter:
  "take 1 (rev (filter P xs)) = (case find P (rev xs) of Some e \<Rightarrow> [e] | None \<Rightarrow> [])"
  unfolding rev_filter by (rule take1_filter)

section \<open>The order of the displayed list\<close>

text \<open>
  The comparison function is consistent: it is total and transitive, so the sort has
  one stable result, the one \<open>sortBy\<close> computes.
\<close>

lemma compareFn_alt:
  "compareFn a b =
     (if \<bar>timestamp a - timestamp b\<bar> > 1000 then timestamp a - timestamp b
      else if msg_type a = User \<and> msg_type b = Agent then - 1
      else if msg_type a = Agent \<and> msg_type b = User then 1
      else timestamp a - timestamp b)"
  by (simp add: compareFn_def Let_def)

lemma compareFn_total: "compareFn x y \<le> 0 \<or> compareFn y x \<le> 0"
  by (cases "msg_type x"; cases "msg_type y") (auto simp: compareFn_alt)

lemma compareFn_antisym: "compareFn x y = - compareFn y x"
  by (cases "msg_type x"; cases "msg_type y") (auto simp: compareFn_alt)

lemma compareFn_trans:
  "compareFn x y \<le> 0 \<Longrightarrow> compareFn y z \<le> 0 \<Longrightarrow> compareFn x z \<le> 0"
  by (cases "msg_type x"; cases "msg_type y"; cases "msg_type z")
     (auto simp: compareFn_alt split: if_splits)

lemma set_insertBy: "set (insertBy cmp x xs) = insert x (set xs)"
  by (induction xs) auto

lemma mset_insertBy: "mset (insertBy cmp x xs) = add_mset x (mset xs)"
  by (induction xs) auto

lemma mset_sortBy: "mset (sortBy cmp xs) = mset xs"
  by (induction xs) (auto simp: sortBy_def mset_insertBy)

lemma sorted_insertBy:
  assumes "sorted_wrt (\<lambda>x y. compareFn x y \<le> 0) xs"
  shows "sorted_wrt (\<lambda>x y. compareFn x y \<le> 0) (insertBy compareFn x xs)"
  using assms
proof (induction xs)
  case Nil
  then show ?case by simp
next
  case (Cons y ys)
  show ?case
  proof (cases "compareFn x y \<le> 0")
    case True
    with Cons.prems show ?thesis by (auto intro: compareFn_trans)
  next
    case False
    then have yx: "compareFn y x \<le> 0" using compareFn_total[of x y] by simp
    from Cons have "sorted_wrt (\<lambda>x y. compareFn x y \<le> 0) (insertBy compareFn x ys)" by simp
    with False yx Cons.prems show ?thesis by (auto simp: set_insertBy)
  qed
qed

lemma sorted_sortBy: "sorted_wrt (\<lambda>x y. compareFn x y \<le> 0) (sortBy compareFn xs)"
proof (induction xs)
  case Nil
  then show ?case by (simp add: sortBy_def)
next
  case (Cons x xs)
  then show ?case using sorted_insertBy[of "sortBy compareFn xs" x] by (simp add: sortBy_def)
qed

text \<open>
  C8. A displayed user message and a displayed agent message whose timestamps differ by
  less than 1000 ms: in the sorted list the user message stands before the agent
  message, and nowhere after it, whatever the order of the collection.
\<close>

theorem human_before_agent_within_second:
  assumes "filteredMessages msgs = Inr visible"
    and "h \<in> set visible" and "a \<in> set visible"
    and "msg_type h = User" and "msg_type a = Agent"
    and "\<bar>timestamp h - timestamp a\<bar> < 1000"
  shows "\<exists>sorted. sortedMessages msgs = Inr sorted \<and>
           (\<exists>xs ys zs. sorted = xs @ h # ys @ a # zs) \<and>
           \<not> (\<exists>xs ys zs. sorted = xs @ a # ys @ h # zs)"
proof -
  let ?S = "sortBy compareFn visible"
  have res: "sortedMessages msgs = Inr ?S"
    using assms(1) by (simp add: sortedMessages_def)
  have srt: "sorted_wrt (\<lambda>x y. compareFn x y \<le> 0) ?S"
    by (rule sorted_sortBy)
  have ah: "compareFn a h = 1" using assms by (auto simp: compareFn_alt)
  have no: "\<not> (\<exists>xs ys zs. ?S = xs @ a # ys @ h # zs)"
  proof
    assume "\<exists>xs ys zs. ?S = xs @ a # ys @ h # zs"
    then obtain xs ys zs where "?S = xs @ a # ys @ h # zs" by blast
    with srt have "compareFn a h \<le> 0" by (simp add: sorted_wrt_append)
    with ah show False by simp
  qed
  have "set ?S = set visible"
    using mset_sortBy[of compareFn visible] by (metis set_mset_mset)
  with assms have hin: "h \<in> set ?S" and ain: "a \<in> set ?S" by simp_all
  from hin obtain us vs where split: "?S = us @ h # vs" by (meson split_list)
  have ne: "a \<noteq> h" using assms by auto
  from ain split ne have "a \<in> set us \<or> a \<in> set vs" by auto
  then have "\<exists>xs ys zs. ?S = xs @ h # ys @ a # zs"
  proof
    assume "a \<in> set us"
    then obtain p q where "us = p @ a # q" by (meson split_list)
    with split have "?S = p @ a # q @ h # vs" by simp
    with no show ?thesis by blast
  next
    assume "a \<in> set vs"
    then obtain p q where "vs = p @ a # q" by (meson split_list)
    with split have "?S = us @ h # p @ a # q" by simp
    then show ?thesis by blast
  qed
  with res no show ?thesis by blast
qed

lemma filtered_two_turns:
  "filteredMessages [agentTurn, humanTurn] = Inr [agentTurn, humanTurn] \<and>
   filteredMessages [humanTurn, agentTurn] = Inr [humanTurn, agentTurn]"
  by (simp add: filteredMessages_def isNearDuplicate_def hourglass_def js_defs
      humanTurn_def agentTurn_def)

text \<open>
  The user message of t = 1000 and the agent message of t = 1500, inserted in either
  order.
\<close>

theorem human_before_agent_within_second_witness:
  "(\<exists>sorted. sortedMessages [agentTurn, humanTurn] = Inr sorted \<and>
      (\<exists>xs ys zs. sorted = xs @ humanTurn # ys @ agentTurn # zs) \<and>
      \<not> (\<exists>xs ys zs. sorted = xs @ agentTurn # ys @ humanTurn # zs)) \<and>
   (\<exists>sorted. sortedMessages [humanTurn, agentTurn] = Inr sorted \<and>
      (\<exists>xs ys zs. sorted = xs @ humanTurn # ys @ agentTurn # zs) \<and>
      \<not> (\<exists>xs ys zs. sorted = xs @ agentTurn # ys @ humanTurn # zs))"
proof -
  have types: "msg_type humanTurn = User" "msg_type agentTurn = Agent"
    and near: "\<bar>timestamp humanTurn - timestamp agentTurn\<bar> < 1000"
    by (simp_all add: humanTurn_def agentTurn_def)
  have f1: "filteredMessages [agentTurn, humanTurn] = Inr [agentTurn, humanTurn]"
    and f2: "filteredMessages [humanTurn, agentTurn] = Inr [humanTurn, agentTurn]"
    using filtered_two_turns by simp_all
  have in1: "humanTurn \<in> set [agentTurn, humanTurn]" "agentTurn \<in> set [agentTurn, humanTurn]"
    and in2: "humanTurn \<in> set [humanTurn, agentTurn]" "agentTurn \<in> set [humanTurn, agentTurn]"
    by simp_all
  show ?thesis
    using human_before_agent_within_second[OF f1 in1 types near]
          human_before_agent_within_second[OF f2 in2 types near]
    by blast
qed

section \<open>The scenario of the specification\<close>

lemma scenario_messages:
  "messages (scenarioRun n1 r1 n2 r2 n3 r3) =
     [\<lparr>msg_id = ''user-'' @ showInt n1 @ ''-'' @ r1, msg_type = User, msg_text = ''salom'',
        timestamp = 1000,
        latency = Some \<lparr>vad = None, stt = None, llm = None, tts = None, total = None,
                        userSpeechDuration = Some 0, agentResponseDuration = None\<rparr>,
        conversationId = None\<rparr>,
      \<lparr>msg_id = ''agent-reply-'' @ showInt n3 @ ''-'' @ r3, msg_type = Agent,
        msg_text = ''salom, qandaysiz?'', timestamp = 1800,
        latency = Some \<lparr>vad = None, stt = None, llm = None, tts = None, total = None,
                        userSpeechDuration = None, agentResponseDuration = None\<rparr>,
        conversationId = Some ''c1''\<rparr>]"
  by (simp add: scenarioRun_def scenarioMetrics_def event_defs initialState_def
      handler_defs js_defs)

lemma scenario_table:
  "pipelineMetricsRef (scenarioRun n1 r1 n2 r2 n3 r3) =
     [(''c1'', \<lparr>pm_vad = StageNum 50, pm_stt = StageNum 120, pm_llm = StageNum 300,
                pm_tts = StageNum 200, pm_total = 670, pm_conversationId = ''c1'',
                pm_createdAt = 1700\<rparr>)]"
  by (simp add: scenarioRun_def scenarioMetrics_def event_defs initialState_def
      handler_defs js_defs)

lemma scenario_displayed:
  "sortedMessages (messages (scenarioRun n1 r1 n2 r2 n3 r3)) = Inr
     [\<lparr>msg_id = ''user-'' @ showInt n1 @ ''-'' @ r1, msg_type = User, msg_text = ''salom'',
        timestamp = 1000,
        latency = Some \<lparr>vad = None, stt = None, llm = None, tts = None, total = None,
                        userSpeechDuration = Some 0, agentResponseDuration = None\<rparr>,
        conversationId = None\<rparr>,
      \<lparr>msg_id = ''agent-reply-'' @ showInt n3 @ ''-'' @ r3, msg_type = Agent,
        msg_text = ''salom, qandaysiz?'', timestamp = 1800,
        latency = Some \<lparr>vad = None, stt = None, llm = None, tts = None, total = None,
                        userSpeechDuration = None, agentResponseDuration = None\<rparr>,
        conversationId = Some ''c1''\<rparr>]"
  unfolding scenario_messages by (simp add: view_defs js_defs)

text \<open>
  C1, as the code has it. After \<open>user_speech\<close> (salom, 1000), \<open>pipeline_metrics\<close>
  (c1, 50/120/300/200/670, created at 1700) and \<open>agent_reply\<close> (salom, qandaysiz?,
  1800) on the empty collection, two messages are displayed: the user message of 1000
  and the agent message of 1800 with that text, tagged with conversation \<open>c1\<close>. The
  metrics arrive when no message carries \<open>c1\<close> and no agent message exists, so they
  are stored in the table only: \<open>vad\<close> and \<open>stt\<close> of the user message and \<open>llm\<close>,
  \<open>tts\<close> and \<open>total\<close> of the agent message stay absent.
\<close>

theorem scenario_two_turns_without_metrics:
  "sortedMessages (messages (scenarioRun n1 r1 n2 r2 n3 r3)) = Inr
     [\<lparr>msg_id = ''user-'' @ showInt n1 @ ''-'' @ r1, msg_type = User, msg_text = ''salom'',
        timestamp = 1000,
        latency = Some \<lparr>vad = None, stt = None, llm = None, tts = None, total = None,
                        userSpeechDuration = Some 0, agentResponseDuration = None\<rparr>,
        conversationId = None\<rparr>,
      \<lparr>msg_id = ''agent-reply-'' @ showInt n3 @ ''-'' @ r3, msg_type = Agent,
        msg_text = ''salom, qandaysiz?'', timestamp = 1800,
        latency = Some \<lparr>vad = None, stt = None, llm = None, tts = None, total = None,
                        userSpeechDuration = None, agentResponseDuration = None\<rparr>,
        conversationId = Some ''c1''\<rparr>]
   \<and> map_of (pipelineMetricsRef (scenarioRun n1 r1 n2 r2 n3 r3)) ''c1'' =
       Some \<lparr>pm_vad = StageNum 50, pm_stt = StageNum 120, pm_llm = StageNum 300,
             pm_tts = StageNum 200, pm_total = 670, pm_conversationId = ''c1'',
             pm_createdAt = 1700\<rparr>"
  by (simp add: scenario_displayed scenario_table)

text \<open>The scenario with the clock readings 1001, 1701, 1801.\<close>

theorem scenario_two_turns_without_metrics_witness:
  "map_sum id (map msg_text)
     (sortedMessages (messages (scenarioRun 1001 ''k3x'' 1701 ''p0q'' 1801 ''z81''))) =
     Inr [''salom'', ''salom, qandaysiz?''] \<and>
   map_sum id (map latency)
     (sortedMessages (messages (scenarioRun 1001 ''k3x'' 1701 ''p0q'' 1801 ''z81''))) =
     Inr [Some (emptyLatency\<lparr>userSpeechDuration := Some 0\<rparr>), Some emptyLatency]"
  using scenario_two_turns_without_metrics [of 1001 "''k3x''" 1701 "''p0q''" 1801 "''z81''"]
  by (simp add: emptyLatency_def)

text \<open>
  C1 as stated fails: in the scenario two messages are displayed, but the user message
  has neither the \<open>vad\<close> of 50 nor the \<open>stt\<close> of 120, and the agent message has
  neither the \<open>llm\<close> of 300 nor the \<open>tts\<close> of 200 nor the \<open>total\<close> of 670; the
  five fields are absent.
\<close>

theorem scenario_claimed_metrics_counterexample:
  "length (projr (sortedMessages
            (messages (scenarioRun 1001 ''k3x'' 1701 ''p0q'' 1801 ''z81'')))) = 2 \<and>
   vad (latOf (projr (sortedMessages
            (messages (scenarioRun 1001 ''k3x'' 1701 ''p0q'' 1801 ''z81''))) ! 0)) = None \<and>
   stt (latOf (projr (sortedMessages
            (messages (scenarioRun 1001 ''k3x'' 1701 ''p0q'' 1801 ''z81''))) ! 0)) = None \<and>
   llm (latOf (projr (sortedMessages
            (messages (scenarioRun 1001 ''k3x'' 1701 ''p0q'' 1801 ''z81''))) ! 1)) = None \<and>
   tts (latOf (projr (sortedMessages
            (messages (scenarioRun 1001 ''k3x'' 1701 ''p0q'' 1801 ''z81''))) ! 1)) = None \<and>
   total (latOf (projr (sortedMessages
            (messages (scenarioRun 1001 ''k3x'' 1701 ''p0q'' 1801 ''z81''))) ! 1)) = None"
  by (simp add: scenario_displayed latOf_def)

section \<open>Track notifications and the number of messages\<close>

lemma length_setFirstUserTotal: "length (setFirstUserTotal rd ms) = length ms"
  by (induction ms) (auto split: option.splits)

lemma length_trackPublishedUpdater: "length (trackPublishedUpdater rd ms) = length ms"
  by (simp add: trackPublishedUpdater_def length_setFirstUserTotal)

lemma user_speech_salom:
  "handleDataReceived 1000 ''abc'' initialState (Decoded (userSpeechEvent ''salom'' 1000)) =
     initialState\<lparr>userSpeechEndRef := Some 1000, lastUserSpeechTimeRef := Some 1000,
       messages := [\<lparr>msg_id = ''user-1000-abc'', msg_type = User, msg_text = ''salom'',
          timestamp = 1000,
          latency = Some (emptyLatency\<lparr>userSpeechDuration := Some 0\<rparr>),
          conversationId = None\<rparr>],
       agentResponseStartRef := Some 1000\<rparr>"
  by (simp add: initialState_def event_defs handleDataReceived_def handleData_def
      handleUserSpeech_def userSpeechUpdater_def js_defs show_defs)

lemma frame_setFirstUserTotal:
  "map (\<lambda>m. m\<lparr>latency := None\<rparr>) (setFirstUserTotal rd ms) =
   map (\<lambda>m. m\<lparr>latency := None\<rparr>) ms"
  by (induction ms) (auto split: option.splits)

lemma frame_trackPublishedUpdater:
  "map (\<lambda>m. m\<lparr>latency := None\<rparr>) (trackPublishedUpdater rd ms) =
   map (\<lambda>m. m\<lparr>latency := None\<rparr>) ms"
  by (simp add: trackPublishedUpdater_def rev_map[symmetric] frame_setFirstUserTotal)

lemma trackState_eval:
  "map msg_id (messages trackState) = [''user-1000-abc''] \<and>
   map msg_type (messages trackState) = [User] \<and>
   lastUserSpeechTimeRef trackState = Some 1000 \<and>
   trackPublishTimesRef trackState ''TR_1'' = Some 1500 \<and>
   trackPublishTimesRef trackState ''TR_2'' = None"
  unfolding trackState_def handleEvent.simps user_speech_salom
  by (simp add: initialState_def handleTrackPublished_def trackPublishedUpdater_def truthyNum_def)

text \<open>
  C2, as the code has it. A published track keeps the number of messages, and every
  message as it is apart from its latency. An unpublished, muted or unmuted track leaves
  the collection as it is. A subscribed track appends exactly one message at the end of
  the collection, an agent message with the text of line 637 and the arrival time as its
  timestamp, when the participant is remote, the track is an audio track with a recorded
  publish time and a user speech time is recorded; otherwise it leaves the collection as
  it is.
\<close>

theorem track_events_turn_count:
  "length (messages (handleEvent now rnd s (TrackPublished sid kind isLocal))) =
     length (messages s) \<and>
   map (\<lambda>m. m\<lparr>latency := None\<rparr>)
     (messages (handleEvent now rnd s (TrackPublished sid kind isLocal))) =
     map (\<lambda>m. m\<lparr>latency := None\<rparr>) (messages s) \<and>
   messages (handleEvent now rnd s (TrackUnpublished sid kind isLocal)) = messages s \<and>
   messages (handleEvent now rnd s (TrackMuted sid kind isLocal)) = messages s \<and>
   messages (handleEvent now rnd s (TrackUnmuted sid kind isLocal)) = messages s \<and>
   (if subscribeAppends s sid kind isLocal
    then \<exists>m. messages (handleEvent now rnd s (TrackSubscribed sid kind isLocal)) =
                messages s @ [m] \<and>
              msg_type m = Agent \<and> msg_text m = agentRepliedText \<and> timestamp m = now \<and>
              msg_id m = ''agent-'' @ showInt now \<and> conversationId m = None
    else messages (handleEvent now rnd s (TrackSubscribed sid kind isLocal)) = messages s)"
  by (simp add: handleTrackPublished_def handleTrackSubscribed_def subscribeAppends_def
      length_trackPublishedUpdater frame_trackPublishedUpdater Let_def)

text \<open>The remote audio tracks \<open>TR_1\<close> (published) and \<open>TR_2\<close> (never published).\<close>

theorem track_events_turn_count_witness:
  "length (messages (handleEvent 2000 [] trackState (TrackPublished ''TR_1'' Audio False))) = 1 \<and>
   messages (handleEvent 2000 [] trackState (TrackMuted ''TR_1'' Audio False)) =
     messages trackState \<and>
   map msg_type (messages (handleEvent 2000 [] trackState (TrackSubscribed ''TR_1'' Audio False))) =
     [User, Agent] \<and>
   map msg_id (messages (handleEvent 2000 [] trackState (TrackSubscribed ''TR_1'' Audio False))) =
     [''user-1000-abc'', ''agent-2000''] \<and>
   map msg_id (messages (handleEvent 2000 [] trackState (TrackSubscribed ''TR_2'' Audio False))) =
     [''user-1000-abc'']"
proof -
  have len: "length (messages trackState) = 1"
  proof -
    have "length (map msg_id (messages trackState)) = 1" using trackState_eval by simp
    then show ?thesis by simp
  qed
  have yes: "subscribeAppends trackState ''TR_1'' Audio False"
    and no: "\<not> subscribeAppends trackState ''TR_2'' Audio False"
    using trackState_eval by (simp_all add: subscribeAppends_def truthyNum_def)
  have sh: "showInt 2000 = ''2000''" by (simp add: show_defs)
  from track_events_turn_count [of 2000 "[]" trackState "''TR_1''" Audio False] yes
  obtain m where m: "messages (handleEvent 2000 [] trackState (TrackSubscribed ''TR_1'' Audio False)) =
      messages trackState @ [m]" "msg_type m = Agent" "msg_id m = ''agent-'' @ showInt 2000"
    and a: "length (messages (handleEvent 2000 [] trackState (TrackPublished ''TR_1'' Audio False))) =
      length (messages trackState)"
    and b: "messages (handleEvent 2000 [] trackState (TrackMuted ''TR_1'' Audio False)) =
      messages trackState"
    by (simp only: if_True) blast
  from track_events_turn_count [of 2000 "[]" trackState "''TR_2''" Audio False] no
  have c: "messages (handleEvent 2000 [] trackState (TrackSubscribed ''TR_2'' Audio False)) =
      messages trackState"
    by (simp only: if_False)
  show ?thesis
    unfolding m c using a b len trackState_eval by (simp add: m sh)
qed

text \<open>
  C2 as stated fails: after a user has spoken and the remote audio track \<open>TR_1\<close> has
  been published, its subscription adds a second message, the agent message of line 637.
\<close>

theorem track_subscribed_adds_turn_counterexample:
  "map msg_id (messages trackState) = [''user-1000-abc''] \<and>
   map msg_id (messages (handleEvent 2000 [] trackState (TrackSubscribed ''TR_1'' Audio False))) =
     [''user-1000-abc'', ''agent-2000'']"
proof -
  have "messages (handleEvent 2000 [] trackState (TrackSubscribed ''TR_1'' Audio False)) =
          messages trackState @
            [\<lparr>msg_id = ''agent-'' @ showInt 2000, msg_type = Agent, msg_text = agentRepliedText,
              timestamp = 2000,
              latency = Some (emptyLatency
                \<lparr>total := Some (2000 - the (lastUserSpeechTimeRef trackState)),
                 agentResponseDuration :=
                   (if truthyNum (agentResponseStartRef trackState)
                    then Some (2000 - the (agentResponseStartRef trackState)) else None)\<rparr>),
              conversationId = None\<rparr>]"
    using trackState_eval by (simp add: handleTrackSubscribed_def truthyNum_def)
  then show ?thesis
    using trackState_eval by (simp add: show_defs)
qed

section \<open>Replies and speech events on small collections\<close>

lemma reply_event_eval:
  "d_type (agentReplyEvent t cid ts lat) = Some ''agent_reply'' \<and>
   replyTextOf (agentReplyEvent t cid ts lat) = Some (trim t) \<and>
   d_timestamp (agentReplyEvent t cid ts lat) = Some ts \<and>
   d_latency (agentReplyEvent t cid ts lat) = lat \<and>
   resolveConversationId [] (agentReplyEvent t cid ts lat) = strOrUndefined cid"
  by (simp add: event_defs replyTextOf_def dataText_def resolveConversationId_def strOr_def
      truthyStr_def strOrUndefined_def latestMetrics_def)

lemma trim_hello: "trim ''hello'' = ''hello''"
  by (simp add: trim_def isWhiteSpace_def)

lemma oneReplyState_eval:
  "oneReplyState cid l =
     initialState\<lparr>messages :=
       [\<lparr>msg_id = ''agent-reply-1000-r1'', msg_type = Agent, msg_text = ''hello'',
         timestamp = 1000,
         latency = Some (emptyLatency\<lparr>llm := llm l, tts := tts l,
           agentResponseDuration := agentResponseDuration l, total := total l\<rparr>),
         conversationId = strOrUndefined cid\<rparr>]\<rparr>"
proof -
  let ?d = "agentReplyEvent ''hello'' cid 1000 (Some l)"
  have u: "agentReplyUpdater 1000 ''r1'' ?d [] ''hello'' [] =
           [newAgentReply 1000 ''r1'' ?d ''hello'' (strOrUndefined cid)]"
    by (simp add: agentReplyUpdater_def reply_event_eval Let_def split: option.splits)
  have n: "newAgentReply 1000 ''r1'' ?d ''hello'' (strOrUndefined cid) =
           \<lparr>msg_id = ''agent-reply-1000-r1'', msg_type = Agent, msg_text = ''hello'',
             timestamp = 1000,
             latency = Some (emptyLatency\<lparr>llm := llm l, tts := tts l,
               agentResponseDuration := agentResponseDuration l, total := total l\<rparr>),
             conversationId = strOrUndefined cid\<rparr>"
    by (simp add: newAgentReply_def reply_event_eval dataLat_def numOrElse_def show_defs)
  have "handleData 1000 ''r1'' initialState ?d = handleAgentReply 1000 ''r1'' initialState ?d"
    by (simp add: handleData_def reply_event_eval)
  also have "\<dots> = initialState\<lparr>messages := agentReplyUpdater 1000 ''r1'' ?d [] ''hello'' []\<rparr>"
    by (simp add: handleAgentReply_def reply_event_eval trim_hello initialState_def)
  finally show ?thesis
    by (simp add: oneReplyState_def handleDataReceived_def u n)
qed

lemma agentSpeechUpdater_mset:
  "mset (agentSpeechUpdater now d tbl speechText prev) =
     (case refinementTarget now d tbl prev of
        Some e \<Rightarrow> image_mset (\<lambda>m. if msg_id m = msg_id e then speechMerge d speechText m else m)
                    (mset prev)
      | None \<Rightarrow> mset prev)"
proof (cases "resolveConversationId tbl d")
  case None
  then show ?thesis
    by (cases "find (\<lambda>m. msg_type m = Agent) (rev prev)")
       (simp_all add: agentSpeechUpdater_def refinementTarget_def take1_rev_filter
          del: One_nat_def)
next
  case (Some c)
  then show ?thesis
    by (cases "find (\<lambda>m. msg_type m = Agent \<and> conversationId m = Some c) (rev prev)")
       (simp_all add: agentSpeechUpdater_def refinementTarget_def Let_def)
qed




section \<open>Agent replies: merge and append\<close>

lemma agentReplyUpdater_cases:
  assumes "replyText \<noteq> []" and "resolveConversationId tbl d = Some c"
  shows "agentReplyUpdater now rnd d tbl replyText prev =
     (case duplicateReplyTarget now d c replyText prev of
        Some e \<Rightarrow> map (\<lambda>m. if msg_id m = msg_id e then replyMerge now d m else m) (rev prev)
      | None \<Rightarrow> prev @ [newAgentReply now rnd d replyText (Some c)])"
  using assms
  by (simp add: agentReplyUpdater_def duplicateReplyTarget_def sameReply_def[abs_def]
      normalized_def Let_def split: option.splits)

lemma agentReplyUpdater_no_cid:
  assumes "replyText \<noteq> []" and "resolveConversationId tbl d = None"
  shows "agentReplyUpdater now rnd d tbl replyText prev =
           prev @ [newAgentReply now rnd d replyText None]"
  using assms by (simp add: agentReplyUpdater_def)

lemma agentReplyUpdater_empty: "agentReplyUpdater now rnd d tbl [] prev = prev"
  by (simp add: agentReplyUpdater_def)

lemma handle_reply:
  assumes "isReplyEvent d"
  shows "handleDataReceived now rnd s (Decoded d) = handleAgentReply now rnd s d"
  using assms by (auto simp: handleDataReceived_def handleData_def isReplyEvent_def)

lemma replyMerge_frame:
  "msg_id (replyMerge now d m) = msg_id m \<and>
   msg_type (replyMerge now d m) = msg_type m \<and>
   msg_text (replyMerge now d m) = msg_text m \<and>
   conversationId (replyMerge now d m) = conversationId m \<and>
   timestamp (replyMerge now d m) = numOrElse (d_timestamp d) now \<and>
   vad (latOf (replyMerge now d m)) = vad (latOf m) \<and>
   stt (latOf (replyMerge now d m)) = stt (latOf m) \<and>
   userSpeechDuration (latOf (replyMerge now d m)) = userSpeechDuration (latOf m)"
  by (simp add: replyMerge_def latOf_def)

text \<open>
  C5, as the code has it. When an \<open>agent_reply\<close> is merged (an agent message of the
  same conversation with the same normalized text lies within 2000 ms), every message
  with the id of that message is replaced by its merge and every other message is kept.
  The merge keeps id, speaker, text and conversation id, and of the latency the fields
  \<open>vad\<close>, \<open>stt\<close> and \<open>userSpeechDuration\<close>; it sets the timestamp to the
  timestamp of the event (to the arrival time when the event has none).
\<close>

theorem reply_merge_frame:
  assumes "isReplyEvent d" and "replyTextOf d = Some replyText" and "replyText \<noteq> []"
    and "resolveConversationId (pipelineMetricsRef s) d = Some c"
    and "duplicateReplyTarget now d c replyText (messages s) = Some e"
  shows "mset (messages (handleDataReceived now rnd s (Decoded d))) =
           image_mset (\<lambda>m. if msg_id m = msg_id e then replyMerge now d m else m)
             (mset (messages s)) \<and>
         (\<forall>m. msg_id (replyMerge now d m) = msg_id m \<and>
              msg_type (replyMerge now d m) = msg_type m \<and>
              msg_text (replyMerge now d m) = msg_text m \<and>
              conversationId (replyMerge now d m) = conversationId m \<and>
              timestamp (replyMerge now d m) = numOrElse (d_timestamp d) now \<and>
              vad (latOf (replyMerge now d m)) = vad (latOf m) \<and>
              stt (latOf (replyMerge now d m)) = stt (latOf m) \<and>
              userSpeechDuration (latOf (replyMerge now d m)) = userSpeechDuration (latOf m))"
proof -
  have "messages (handleDataReceived now rnd s (Decoded d)) =
          map (\<lambda>m. if msg_id m = msg_id e then replyMerge now d m else m) (rev (messages s))"
    using assms by (simp add: handle_reply handleAgentReply_def agentReplyUpdater_cases)
  then have "mset (messages (handleDataReceived now rnd s (Decoded d))) =
           image_mset (\<lambda>m. if msg_id m = msg_id e then replyMerge now d m else m)
             (mset (messages s))"
    by simp
  then show ?thesis using replyMerge_frame by blast
qed

lemma second_hello_target:
  assumes "messages s = [M]" and "msg_type M = Agent" and "conversationId M = Some ''c1''"
    and "msg_text M = ''hello''" and "timestamp M = 1000"
  shows "duplicateReplyTarget 1500 (agentReplyEvent ''hello'' (Some ''c1'') 1500 lat) ''c1''
           ''hello'' (messages s) = Some M"
  using assms
  by (simp add: duplicateReplyTarget_def sameReply_def reply_event_eval numOrElse_def)

lemma oneReplyState_c1:
  "messages (oneReplyState (Some ''c1'') l) =
     [\<lparr>msg_id = ''agent-reply-1000-r1'', msg_type = Agent, msg_text = ''hello'',
       timestamp = 1000,
       latency = Some (emptyLatency\<lparr>llm := llm l, tts := tts l,
         agentResponseDuration := agentResponseDuration l, total := total l\<rparr>),
       conversationId = Some ''c1''\<rparr>] \<and>
   pipelineMetricsRef (oneReplyState (Some ''c1'') l) = []"
  by (simp add: oneReplyState_eval initialState_def strOrUndefined_def truthyStr_def)

text \<open>
  The reply hello of conversation \<open>c1\<close> with \<open>llm = 300\<close>, repeated 500 ms later with
  \<open>tts = 200\<close>.
\<close>

theorem reply_merge_frame_witness:
  "mset (messages (handleDataReceived 1500 ''r2''
       (oneReplyState (Some ''c1'') (emptyLatency\<lparr>llm := Some 300\<rparr>))
       (Decoded (agentReplyEvent ''hello'' (Some ''c1'') 1500
          (Some (emptyLatency\<lparr>tts := Some 200\<rparr>)))))) =
     {#\<lparr>msg_id = ''agent-reply-1000-r1'', msg_type = Agent, msg_text = ''hello'',
        timestamp = 1500,
        latency = Some (emptyLatency\<lparr>llm := Some 300, tts := Some 200\<rparr>),
        conversationId = Some ''c1''\<rparr>#}"
proof -
  let ?s = "oneReplyState (Some ''c1'') (emptyLatency\<lparr>llm := Some 300\<rparr>)"
  let ?d = "agentReplyEvent ''hello'' (Some ''c1'') 1500 (Some (emptyLatency\<lparr>tts := Some 200\<rparr>))"
  obtain M where M: "messages ?s = [M]"
    and M_def: "M = \<lparr>msg_id = ''agent-reply-1000-r1'', msg_type = Agent, msg_text = ''hello'',
       timestamp = 1000, latency = Some (emptyLatency\<lparr>llm := Some 300\<rparr>),
       conversationId = Some ''c1''\<rparr>"
    by (simp add: oneReplyState_c1 emptyLatency_def)
  have h1: "isReplyEvent ?d" by (simp add: isReplyEvent_def reply_event_eval)
  have h2: "replyTextOf ?d = Some ''hello''" by (simp add: reply_event_eval trim_hello)
  have h3: "''hello'' \<noteq> []" by simp
  have h4: "resolveConversationId (pipelineMetricsRef ?s) ?d = Some ''c1''"
    by (simp add: oneReplyState_c1 reply_event_eval strOrUndefined_def truthyStr_def)
  have h5: "duplicateReplyTarget 1500 ?d ''c1'' ''hello'' (messages ?s) = Some M"
    by (rule second_hello_target [OF M]) (simp_all add: M_def)
  have "mset (messages (handleDataReceived 1500 ''r2'' ?s (Decoded ?d))) =
          {#replyMerge 1500 ?d M#}"
    using reply_merge_frame [OF h1 h2 h3 h4 h5, of "''r2''"] by (simp add: M)
  then show ?thesis
    by (simp add: M_def replyMerge_def reply_event_eval latOf_def dataLat_def numOr_def
        truthyNum_def numOrElse_def emptyLatency_def)
qed

text \<open>
  C5 as stated fails: the merge of the repeated reply moves the timestamp of the message
  from 1000 to 1500.
\<close>

theorem reply_merge_timestamp_counterexample:
  "map timestamp (messages (oneReplyState (Some ''c1'') (emptyLatency\<lparr>llm := Some 300\<rparr>))) =
     [1000] \<and>
   map timestamp (messages (handleDataReceived 1500 ''r2''
       (oneReplyState (Some ''c1'') (emptyLatency\<lparr>llm := Some 300\<rparr>))
       (Decoded (agentReplyEvent ''hello'' (Some ''c1'') 1500
          (Some (emptyLatency\<lparr>tts := Some 200\<rparr>)))))) = [1500]"
proof -
  let ?s = "oneReplyState (Some ''c1'') (emptyLatency\<lparr>llm := Some 300\<rparr>)"
  let ?d = "agentReplyEvent ''hello'' (Some ''c1'') 1500 (Some (emptyLatency\<lparr>tts := Some 200\<rparr>))"
  obtain M where M: "messages ?s = [M]"
    and M_def: "M = \<lparr>msg_id = ''agent-reply-1000-r1'', msg_type = Agent, msg_text = ''hello'',
       timestamp = 1000, latency = Some (emptyLatency\<lparr>llm := Some 300\<rparr>),
       conversationId = Some ''c1''\<rparr>"
    by (simp add: oneReplyState_c1 emptyLatency_def)
  have t: "duplicateReplyTarget 1500 ?d ''c1'' ''hello'' (messages ?s) = Some M"
    by (rule second_hello_target [OF M]) (simp_all add: M_def)
  have c: "resolveConversationId (pipelineMetricsRef ?s) ?d = Some ''c1''"
    by (simp add: oneReplyState_c1 reply_event_eval strOrUndefined_def truthyStr_def)
  have "handleDataReceived 1500 ''r2'' ?s (Decoded ?d) = handleAgentReply 1500 ''r2'' ?s ?d"
    by (rule handle_reply) (simp add: isReplyEvent_def reply_event_eval)
  then have "messages (handleDataReceived 1500 ''r2'' ?s (Decoded ?d)) =
          agentReplyUpdater 1500 ''r2'' ?d (pipelineMetricsRef ?s) ''hello'' (messages ?s)"
    by (simp add: handleAgentReply_def reply_event_eval trim_hello)
  also have "\<dots> = map (\<lambda>m. if msg_id m = msg_id M then replyMerge 1500 ?d m else m)
                      (rev (messages ?s))"
    using agentReplyUpdater_cases [of "''hello''" "pipelineMetricsRef ?s" ?d "''c1''"] c t
    by simp
  finally show ?thesis
    by (simp add: M replyMerge_def reply_event_eval numOrElse_def) (simp add: M_def)
qed

section \<open>Two replies of one conversation with different texts\<close>










section \<open>Agent speech refinement\<close>








section \<open>The window of the duplicate check\<close>

lemma filterLoop_keep:
  assumes "msg_text msg \<noteq> []" and "trim (msg_text msg) \<noteq> []"
    and "\<not> includesStr (msg_text msg) hourglass"
    and "\<not> includesStr (msg_text msg) ''Agent javob bermoqda''"
    and "msg_type msg = User"
    and "\<not> list_ex (isNearDuplicate msg) (take 10 (rev filtered))"
  shows "filterLoop (msg # rest) filtered seen = filterLoop rest (rev filtered @ [msg]) seen"
  using assms by (simp add: Let_def)

lemma filterLoop_drop:
  assumes "msg_text msg \<noteq> []" and "trim (msg_text msg) \<noteq> []"
    and "\<not> includesStr (msg_text msg) hourglass"
    and "\<not> includesStr (msg_text msg) ''Agent javob bermoqda''"
    and "list_ex (isNearDuplicate msg) (take 10 (rev filtered))"
    and "\<not> invalidDate (timestamp msg)"
  shows "filterLoop (msg # rest) filtered seen = filterLoop rest (rev filtered) seen"
  using assms by (simp add: Let_def)

lemmas turn_eval = userTurn_def isNearDuplicate_def hourglass_def trim_def isWhiteSpace_def
  toLowerCase_def lowerChar_def startsWith_def invalidDate_def

lemma eleven_accepted:
  "filterLoop (elevenTurns @ rest) [] Map.empty =
     filterLoop rest
       [userTurn ''m10'' ''on'' 1000, userTurn ''m08'' ''sakkiz'' 800,
        userTurn ''m06'' ''olti'' 600, userTurn ''m04'' ''tort'' 400,
        userTurn ''m02'' ''ikki'' 200, userTurn ''m01'' ''bir'' 100,
        userTurn ''m03'' ''uch'' 300, userTurn ''m05'' ''besh'' 500,
        userTurn ''m07'' ''yetti'' 700, userTurn ''m09'' ''toqqiz'' 900,
        userTurn ''m11'' ''on bir'' 1100] Map.empty"
  unfolding elevenTurns_def append_Cons append_Nil
  apply (subst filterLoop_keep, simp_all add: turn_eval)+
  done

text \<open>
  C4 at the input that shows the defect. After the eleven messages have been accepted,
  the array \<open>filtered\<close> is no longer in the order of acceptance, because
  \<open>filtered.reverse()\<close> has reversed it in place in every iteration. The twelfth
  message repeats the text of the tenth, 2500 ms later: the tenth is among the last ten
  accepted messages, but not among the ten the loop looks at, and the twelfth message
  is kept. A twelfth message that repeats the text of the first, which is not among the
  last ten accepted messages, is dropped.
\<close>

theorem duplicate_window_failing_input:
  "map_sum id (map msg_id) (filteredMessages (elevenTurns @ [userTurn ''m12'' ''on'' 3500])) =
     Inr [''m11'', ''m09'', ''m07'', ''m05'', ''m03'', ''m01'', ''m02'', ''m04'', ''m06'',
          ''m08'', ''m10'', ''m12''] \<and>
   map_sum id (map msg_id) (filteredMessages (elevenTurns @ [userTurn ''m12'' ''bir'' 3000])) =
     Inr [''m11'', ''m09'', ''m07'', ''m05'', ''m03'', ''m01'', ''m02'', ''m04'', ''m06'',
          ''m08'', ''m10'']"
proof -
  have a: "map_sum id (map msg_id)
             (filteredMessages (elevenTurns @ [userTurn ''m12'' ''on'' 3500])) =
     Inr [''m11'', ''m09'', ''m07'', ''m05'', ''m03'', ''m01'', ''m02'', ''m04'', ''m06'',
          ''m08'', ''m10'', ''m12'']"
    unfolding filteredMessages_def eleven_accepted
    by (subst filterLoop_keep) (simp_all add: turn_eval)
  have b: "map_sum id (map msg_id)
             (filteredMessages (elevenTurns @ [userTurn ''m12'' ''bir'' 3000])) =
     Inr [''m11'', ''m09'', ''m07'', ''m05'', ''m03'', ''m01'', ''m02'', ''m04'', ''m06'',
          ''m08'', ''m10'']"
    unfolding filteredMessages_def eleven_accepted
    by (subst filterLoop_drop) (simp_all add: turn_eval)
  from a b show ?thesis by simp
qed

section \<open>No message is ever removed\<close>

lemma ids_cond_map:
  assumes "\<And>m. msg_id (g m) = msg_id m"
  shows "map msg_id (map (\<lambda>m. if c m then g m else m) xs) = map msg_id xs"
  using assms by (induction xs) auto

lemma ids_rev: "mset (map msg_id (rev xs)) = mset (map msg_id xs)"
  by (simp only: rev_map[symmetric] mset_rev)

lemma ids_replyMerge_map:
  "map msg_id (map (\<lambda>m. if msg_id m = i then replyMerge now d m else m) xs) = map msg_id xs"
  by (rule ids_cond_map) (simp add: replyMerge_def)

lemma ids_speechMerge_map:
  "map msg_id (map (\<lambda>m. if msg_id m = i then speechMerge d t m else m) xs) = map msg_id xs"
  by (rule ids_cond_map) (simp add: speechMerge_def)

lemma ids_userSpeechUpdater:
  "mset (map msg_id prev) \<subseteq># mset (map msg_id (userSpeechUpdater now rnd d t cid prev))"
  by (simp add: userSpeechUpdater_def Let_def)

lemma ids_agentReplyUpdater:
  "mset (map msg_id prev) \<subseteq># mset (map msg_id (agentReplyUpdater now rnd d tbl t prev))"
proof (cases "t = []")
  case True
  then show ?thesis by (simp add: agentReplyUpdater_empty)
next
  case False
  show ?thesis
  proof (cases "resolveConversationId tbl d")
    case None
    with False show ?thesis by (simp add: agentReplyUpdater_no_cid)
  next
    case (Some c)
    show ?thesis
    proof (cases "duplicateReplyTarget now d c t prev")
      case None
      with False Some show ?thesis by (simp add: agentReplyUpdater_cases)
    next
      case (Some e)
      with False \<open>resolveConversationId tbl d = Some c\<close>
      have "agentReplyUpdater now rnd d tbl t prev =
              map (\<lambda>m. if msg_id m = msg_id e then replyMerge now d m else m) (rev prev)"
        by (simp add: agentReplyUpdater_cases)
      then show ?thesis by (simp only: ids_replyMerge_map ids_rev subset_mset.order_refl)
    qed
  qed
qed

lemma ids_agentSpeechUpdater:
  "mset (map msg_id (agentSpeechUpdater now d tbl t prev)) = mset (map msg_id prev)"
proof -
  have "mset (map msg_id (agentSpeechUpdater now d tbl t prev)) =
          image_mset msg_id (mset (agentSpeechUpdater now d tbl t prev))"
    by simp
  also have "\<dots> = image_mset msg_id (mset prev)"
  proof (cases "refinementTarget now d tbl prev")
    case None
    then show ?thesis by (simp add: agentSpeechUpdater_mset)
  next
    case (Some e)
    have "image_mset msg_id
            (image_mset (\<lambda>m. if msg_id m = msg_id e then speechMerge d t m else m) (mset prev)) =
          image_mset msg_id (mset prev)"
      using ids_speechMerge_map [of "msg_id e" d t prev]
      by (metis mset_map)
    with Some show ?thesis by (simp only: agentSpeechUpdater_mset option.case)
  qed
  finally show ?thesis by simp
qed

lemma ids_metricsUpdater: "map msg_id (metricsUpdater pm prev) = map msg_id prev"
proof -
  have a: "map msg_id (map (\<lambda>m. if conversationId m = Some c
             then m\<lparr>latency := Some (metricsLatency pm m)\<rparr> else m) xs) = map msg_id xs"
    for c xs
    by (rule ids_cond_map) simp
  have b: "map msg_id (map (\<lambda>m. if msg_id m = i
             then m\<lparr>conversationId := Some c, latency := Some (metricsLatency pm m)\<rparr>
             else m) xs) = map msg_id xs" for i c xs
    by (rule ids_cond_map) simp
  show ?thesis
    unfolding metricsUpdater_def Let_def
    by (simp only: a b split: option.split if_split) simp
qed

lemma ids_setFirstUserTotal: "map msg_id (setFirstUserTotal rd ms) = map msg_id ms"
  by (induction ms) (auto split: option.splits)

lemma ids_trackPublishedUpdater: "map msg_id (trackPublishedUpdater rd ms) = map msg_id ms"
  by (simp add: trackPublishedUpdater_def rev_map[symmetric] ids_setFirstUserTotal)

lemma ids_handleData:
  "mset (map msg_id (messages s)) \<subseteq># mset (map msg_id (messages (handleData now rnd s d)))"
proof -
  have u: "mset (map msg_id (messages s)) \<subseteq>#
           mset (map msg_id (messages (handleUserSpeech now rnd s d t)))" for t
    using ids_userSpeechUpdater by (simp add: handleUserSpeech_def Let_def del: mset_map)
  have r: "mset (map msg_id (messages s)) \<subseteq>#
           mset (map msg_id (messages (handleAgentReply now rnd s d)))"
    using ids_agentReplyUpdater
    by (simp add: handleAgentReply_def del: mset_map split: option.splits)
  have p: "mset (map msg_id (messages s)) \<subseteq>#
           mset (map msg_id (messages (handleAgentSpeech now s d)))"
    by (simp add: handleAgentSpeech_def Let_def ids_agentSpeechUpdater del: mset_map)
  have m: "mset (map msg_id (messages s)) \<subseteq>#
           mset (map msg_id (messages (handlePipelineMetrics now s d)))"
    by (simp add: handlePipelineMetrics_def ids_metricsUpdater del: mset_map
        split: option.splits)
  show ?thesis
    unfolding handleData_def using u r p m by (simp del: mset_map)
qed

text \<open>
  C10. For every event, a payload of the data channel (decodable or not) or a track
  notification, every id of the collection before the event is an id of the collection
  after it, as many times: messages are changed or added, never removed.
\<close>

theorem turns_never_deleted:
  "mset (map msg_id (messages s)) \<subseteq># mset (map msg_id (messages (handleEvent now rnd s e)))"
proof (cases e)
  case (DataReceived p)
  then show ?thesis
    using ids_handleData by (cases p) (simp_all add: handleDataReceived_def del: mset_map)
next
  case (TrackPublished sid kind isLocal)
  then show ?thesis
    by (simp add: handleTrackPublished_def Let_def ids_trackPublishedUpdater del: mset_map)
next
  case (TrackSubscribed sid kind isLocal)
  then show ?thesis by (simp add: handleTrackSubscribed_def Let_def)
qed simp_all

text \<open>The subscription of the track \<open>TR_1\<close>, which adds a message to the one present.\<close>

theorem turns_never_deleted_witness:
  "{#''user-1000-abc''#} \<subseteq>#
     mset (map msg_id
       (messages (handleEvent 2000 [] trackState (TrackSubscribed ''TR_1'' Audio False))))"
  using turns_never_deleted [of trackState 2000 "[]" "TrackSubscribed ''TR_1'' Audio False"]
        trackState_eval
  by (simp del: handleEvent.simps mset_map)

section \<open>Stored latency values and later events\<close>

lemma keepsPositive_refl: "keepsPositive now p m m"
  by (simp add: keepsPositive_def)

lemma list_all2_map_self:
  assumes "\<And>x. R x (g x)"
  shows "list_all2 R xs (take (length xs) (map g xs @ ys))"
  using assms by (simp add: list_all2_map2 list_all2_same)

lemma list_all2_self:
  assumes "\<And>x. R x x"
  shows "list_all2 R xs (take (length xs) (xs @ ys))"
  using assms by (simp add: list_all2_same)

lemma kept_or_carried:
  assumes "\<not> isMetricsEvent d"
    and "\<And>f. f' f = (if f = FLlm \<or> f = FTts \<or> f = FTotal
                      then numOr (fieldOf f (dataLat d)) (fieldOf f l) else fieldOf f l)"
    and "fieldOf f l = Some v"
  shows "f' f = Some v \<or>
         (\<exists>w. carriedValue now (Decoded d) f = Some w \<and> w \<noteq> 0 \<and>
              (isMetricsPayload (Decoded d) \<longrightarrow> 0 < w) \<and> f' f = Some w)"
proof (cases "truthyNum (fieldOf f (dataLat d)) \<and> (f = FLlm \<or> f = FTts \<or> f = FTotal)")
  case True
  then obtain w where w: "fieldOf f (dataLat d) = Some w" "w \<noteq> 0"
    by (auto simp: truthyNum_def split: option.splits)
  with True assms show ?thesis
    by (simp add: carriedValue_def isMetricsPayload_def numOr_def)
next
  case False
  with assms show ?thesis by (auto simp: numOr_def)
qed

lemma keepsPositive_replyMerge:
  assumes "\<not> isMetricsEvent d"
  shows "keepsPositive now (Decoded d) m (replyMerge now d m)"
proof -
  have id: "msg_id (replyMerge now d m) = msg_id m" by (simp add: replyMerge_def)
  have f': "fieldOf f (latOf (replyMerge now d m)) =
          (if f = FLlm \<or> f = FTts \<or> f = FTotal
           then numOr (fieldOf f (dataLat d)) (fieldOf f (latOf m)) else fieldOf f (latOf m))"
    for f
    by (cases f) (simp_all add: replyMerge_def latOf_def)
  show ?thesis
    unfolding keepsPositive_def
    using id kept_or_carried [OF assms, of "\<lambda>f. fieldOf f (latOf (replyMerge now d m))" "latOf m"] f'
    by blast
qed

lemma keepsPositive_speechMerge:
  assumes "\<not> isMetricsEvent d"
  shows "keepsPositive now (Decoded d) m (speechMerge d t m)"
proof -
  have id: "msg_id (speechMerge d t m) = msg_id m" by (simp add: speechMerge_def)
  have f': "fieldOf f (latOf (speechMerge d t m)) =
          (if f = FLlm \<or> f = FTts \<or> f = FTotal
           then numOr (fieldOf f (dataLat d)) (fieldOf f (latOf m)) else fieldOf f (latOf m))"
    for f
    by (cases f) (simp_all add: speechMerge_def latOf_def)
  show ?thesis
    unfolding keepsPositive_def
    using id kept_or_carried [OF assms, of "\<lambda>f. fieldOf f (latOf (speechMerge d t m))" "latOf m"] f'
    by blast
qed

lemma pickStage_kept:
  assumes "0 < v"
  shows "pickStage x (Some v) = v \<or>
         (\<exists>w. stageNumber x = Some w \<and> 0 < w \<and> pickStage x (Some v) = w)"
  using assms by (cases x) (auto simp: pickStage_def numOrElse_def)

lemma pickTotal_kept:
  assumes "0 < v"
  shows "pickTotal n (Some v) = v \<or> (0 < n \<and> pickTotal n (Some v) = n)"
  using assms by (auto simp: pickTotal_def numOrElse_def)

lemma metricsLatency_kept:
  assumes "fieldOf f (latOf m) = Some v" and "0 < v"
  shows "fieldOf f (metricsLatency pm m) = Some v \<or>
         (\<exists>w. metricsField f pm = Some w \<and> 0 < w \<and> fieldOf f (metricsLatency pm m) = Some w)"
proof (cases f)
  case FVad
  with assms pickStage_kept [of v "pm_vad pm"] show ?thesis
    by (auto simp: metricsLatency_def)
next
  case FStt
  with assms pickStage_kept [of v "pm_stt pm"] show ?thesis
    by (auto simp: metricsLatency_def)
next
  case FLlm
  with assms pickStage_kept [of v "pm_llm pm"] show ?thesis
    by (auto simp: metricsLatency_def)
next
  case FTts
  with assms pickStage_kept [of v "pm_tts pm"] show ?thesis
    by (auto simp: metricsLatency_def)
next
  case FTotal
  with assms pickTotal_kept [of v "pm_total pm"] show ?thesis
    by (auto simp: metricsLatency_def)
qed

lemma keepsPositive_metrics:
  assumes "isMetricsEvent d" and "metricsOf now d = Some pm"
    and "msg_id m' = msg_id m" and "latency m' = Some (metricsLatency pm m)"
  shows "keepsPositive now (Decoded d) m m'"
proof -
  have l: "latOf m' = metricsLatency pm m" using assms(4) by (simp add: latOf_def)
  have c: "carriedValue now (Decoded d) f = metricsField f pm" for f
    using assms(1,2) by (simp add: carriedValue_def)
  show ?thesis
    unfolding keepsPositive_def l c
    using assms(3) metricsLatency_kept [of _ m _ pm] by (simp add: isMetricsPayload_def) blast
qed

lemma map_cond_none:
  assumes "\<not> list_ex P xs"
  shows "map (\<lambda>m. if P m then g m else m) xs = xs"
  using assms by (induction xs) auto

lemma kept_userSpeechUpdater:
  "list_all2 (keepsPositive now p) prev
     (take (length prev) (userSpeechUpdater now rnd d t cid prev))"
  by (simp add: userSpeechUpdater_def Let_def list_all2_same keepsPositive_refl)

lemma kept_agentReplyUpdater:
  assumes "\<not> isMetricsEvent d"
  shows "list_all2 (keepsPositive now (Decoded d)) prev
           (take (length prev) (agentReplyUpdater now rnd d tbl t prev)) \<or>
         list_all2 (keepsPositive now (Decoded d)) (rev prev)
           (take (length prev) (agentReplyUpdater now rnd d tbl t prev))"
proof (cases "t = []")
  case True
  then show ?thesis by (simp add: agentReplyUpdater_empty list_all2_same keepsPositive_refl)
next
  case False
  show ?thesis
  proof (cases "resolveConversationId tbl d")
    case None
    with False show ?thesis
      by (simp add: agentReplyUpdater_no_cid list_all2_same keepsPositive_refl)
  next
    case (Some c)
    show ?thesis
    proof (cases "duplicateReplyTarget now d c t prev")
      case None
      with False Some show ?thesis
        by (simp add: agentReplyUpdater_cases list_all2_same keepsPositive_refl)
    next
      case (Some e)
      with False \<open>resolveConversationId tbl d = Some c\<close>
      have u: "agentReplyUpdater now rnd d tbl t prev =
              map (\<lambda>m. if msg_id m = msg_id e then replyMerge now d m else m) (rev prev) @ []"
        by (simp add: agentReplyUpdater_cases)
      have "list_all2 (keepsPositive now (Decoded d)) (rev prev)
              (take (length (rev prev))
                 (map (\<lambda>m. if msg_id m = msg_id e then replyMerge now d m else m) (rev prev) @ []))"
        by (rule list_all2_map_self)
           (simp add: keepsPositive_refl keepsPositive_replyMerge [OF assms])
      then show ?thesis unfolding u by simp
    qed
  qed
qed

lemma kept_agentSpeechUpdater:
  assumes "\<not> isMetricsEvent d"
  shows "list_all2 (keepsPositive now (Decoded d)) prev
           (take (length prev) (agentSpeechUpdater now d tbl t prev)) \<or>
         list_all2 (keepsPositive now (Decoded d)) (rev prev)
           (take (length prev) (agentSpeechUpdater now d tbl t prev))"
proof -
  have g: "keepsPositive now (Decoded d) m
             (if msg_id m = i then speechMerge d t m else m)" for m i
    by (simp add: keepsPositive_refl keepsPositive_speechMerge [OF assms])
  have a: "list_all2 (keepsPositive now (Decoded d)) xs
             (map (\<lambda>m. if msg_id m = i then speechMerge d t m else m) xs)" for xs i
    using list_all2_map_self [of "keepsPositive now (Decoded d)"
            "\<lambda>m. if msg_id m = i then speechMerge d t m else m" xs "[]"] g
    by simp
  have b: "list_all2 (keepsPositive now (Decoded d)) xs xs" for xs
    by (simp add: list_all2_same keepsPositive_refl)
  show ?thesis
    by (auto simp: agentSpeechUpdater_def Let_def a b split: option.splits list.splits)
qed

lemma kept_metricsUpdater:
  assumes "isMetricsEvent d" and "metricsOf now d = Some pm"
  shows "list_all2 (keepsPositive now (Decoded d)) prev (metricsUpdater pm prev)"
proof -
  let ?c = "\<lambda>m. conversationId m = Some (pm_conversationId pm)"
  let ?g1 = "\<lambda>m. if ?c m then m\<lparr>latency := Some (metricsLatency pm m)\<rparr> else m"
  have k1: "keepsPositive now (Decoded d) m (?g1 m)" for m
    using keepsPositive_metrics [OF assms, of "m\<lparr>latency := Some (metricsLatency pm m)\<rparr>" m]
    by (simp add: keepsPositive_refl)
  have k2: "keepsPositive now (Decoded d) m
              (if msg_id m = i
               then m\<lparr>conversationId := Some (pm_conversationId pm),
                      latency := Some (metricsLatency pm m)\<rparr>
               else m)" for m i
    using keepsPositive_metrics [OF assms,
            of "m\<lparr>conversationId := Some (pm_conversationId pm),
                  latency := Some (metricsLatency pm m)\<rparr>" m]
    by (simp add: keepsPositive_refl)
  show ?thesis
  proof (cases "list_ex ?c prev")
    case True
    then have "metricsUpdater pm prev = map ?g1 prev"
      by (simp add: metricsUpdater_def)
    then show ?thesis
      using list_all2_map_self [of "keepsPositive now (Decoded d)" ?g1 prev "[]"] k1 by simp
  next
    case False
    then have same: "map ?g1 prev = prev" by (rule map_cond_none)
    show ?thesis
    proof (cases "find (\<lambda>m. \<bar>pm_createdAt pm - timestamp m\<bar> < 10000)
                    (take 3 (rev (filter (\<lambda>m. msg_type m = Agent) prev)))")
      case None
      with False same show ?thesis
        by (simp add: metricsUpdater_def list_all2_same keepsPositive_refl)
    next
      case (Some a)
      with False same have "metricsUpdater pm prev =
          map (\<lambda>m. if msg_id m = msg_id a
                    then m\<lparr>conversationId := Some (pm_conversationId pm),
                           latency := Some (metricsLatency pm m)\<rparr>
                    else m) prev"
        by (simp add: metricsUpdater_def)
      then show ?thesis
        using list_all2_map_self [of "keepsPositive now (Decoded d)"
                "\<lambda>m. if msg_id m = msg_id a
                    then m\<lparr>conversationId := Some (pm_conversationId pm),
                           latency := Some (metricsLatency pm m)\<rparr>
                    else m" prev "[]"] k2
        by simp
    qed
  qed
qed

lemma length_metricsUpdater: "length (metricsUpdater pm prev) = length prev"
  using ids_metricsUpdater [of pm prev] by (metis length_map)

lemma kept_handleData:
  "list_all2 (keepsPositive now (Decoded d)) (messages s)
     (take (length (messages s)) (messages (handleData now rnd s d))) \<or>
   list_all2 (keepsPositive now (Decoded d)) (rev (messages s))
     (take (length (messages s)) (messages (handleData now rnd s d)))"
proof -
  have same: "list_all2 (keepsPositive now (Decoded d)) (messages s)
     (take (length (messages s)) (messages s))"
    by (simp add: list_all2_same keepsPositive_refl)
  consider (speech) "d_type d = Some ''user_speech''"
    | (reply) "isReplyEvent d"
    | (refine) "d_type d = Some ''agent_speech''"
    | (metrics) "isMetricsEvent d"
    | (other) "d_type d \<noteq> Some ''user_speech''" "\<not> isReplyEvent d"
        "d_type d \<noteq> Some ''agent_speech''" "\<not> isMetricsEvent d"
    by blast
  then show ?thesis
  proof cases
    case speech
    then show ?thesis
      using same kept_userSpeechUpdater
      by (simp add: handleData_def handleUserSpeech_def Let_def)
  next
    case reply
    then have nm: "\<not> isMetricsEvent d" by (auto simp: isReplyEvent_def isMetricsEvent_def)
    from reply have "handleData now rnd s d = handleAgentReply now rnd s d"
      by (auto simp: handleData_def isReplyEvent_def)
    then show ?thesis
      using same kept_agentReplyUpdater [OF nm]
      by (simp add: handleAgentReply_def split: option.splits)
  next
    case refine
    then have nm: "\<not> isMetricsEvent d" by (simp add: isMetricsEvent_def)
    from refine have "handleData now rnd s d = handleAgentSpeech now s d"
      by (simp add: handleData_def)
    then show ?thesis
      using same kept_agentSpeechUpdater [OF nm]
      by (simp add: handleAgentSpeech_def Let_def)
  next
    case metrics
    then have "handleData now rnd s d = handlePipelineMetrics now s d"
      by (auto simp: handleData_def isMetricsEvent_def)
    then show ?thesis
      using same kept_metricsUpdater [OF metrics]
      by (simp add: handlePipelineMetrics_def length_metricsUpdater split: option.splits)
  next
    case other
    then have "handleData now rnd s d = s"
      by (simp add: handleData_def isReplyEvent_def isMetricsEvent_def)
    with same show ?thesis by simp
  qed
qed

text \<open>
  What the handler of the data channel does keep. A payload leaves the messages it finds
  in place, in their order or in the reversed order, with their ids; and a stage field
  (\<open>vad\<close>, \<open>stt\<close>, \<open>llm\<close>, \<open>tts\<close>, \<open>total\<close>) that held a positive value holds it
  still, unless the payload carries a value for that field that is not zero and, for a
  metrics event, positive, which then replaces it. So on the data channel a value that
  is absent or zero never erases a positive one, and neither does a negative value of a
  metrics event; a negative value of a reply or of a speech event is not held back.
\<close>

lemma data_event_keeps_positive:
  "list_all2 (keepsPositive now p) (messages s)
     (take (length (messages s)) (messages (handleDataReceived now rnd s p))) \<or>
   list_all2 (keepsPositive now p) (rev (messages s))
     (take (length (messages s)) (messages (handleDataReceived now rnd s p)))"
proof (cases p)
  case Undecodable
  then show ?thesis
    by (simp add: handleDataReceived_def list_all2_same keepsPositive_refl)
next
  case (Decoded d)
  then show ?thesis using kept_handleData by (simp add: handleDataReceived_def)
qed

lemma repeated_hello:
  "messages (handleDataReceived 1500 ''r2'' (oneReplyState (Some ''c1'') l)
      (Decoded (agentReplyEvent ''hello'' (Some ''c1'') 1500 (Some l2)))) =
   [replyMerge 1500 (agentReplyEvent ''hello'' (Some ''c1'') 1500 (Some l2))
      \<lparr>msg_id = ''agent-reply-1000-r1'', msg_type = Agent, msg_text = ''hello'',
        timestamp = 1000,
        latency = Some (emptyLatency\<lparr>llm := llm l, tts := tts l,
          agentResponseDuration := agentResponseDuration l, total := total l\<rparr>),
        conversationId = Some ''c1''\<rparr>]"
proof -
  let ?s = "oneReplyState (Some ''c1'') l"
  let ?d = "agentReplyEvent ''hello'' (Some ''c1'') 1500 (Some l2)"
  let ?M = "\<lparr>msg_id = ''agent-reply-1000-r1'', msg_type = Agent, msg_text = ''hello'',
        timestamp = 1000,
        latency = Some (emptyLatency\<lparr>llm := llm l, tts := tts l,
          agentResponseDuration := agentResponseDuration l, total := total l\<rparr>),
        conversationId = Some ''c1''\<rparr>"
  have M: "messages ?s = [?M]" by (simp add: oneReplyState_c1)
  have t: "duplicateReplyTarget 1500 ?d ''c1'' ''hello'' (messages ?s) = Some ?M"
    by (rule second_hello_target [OF M]) simp_all
  have c: "resolveConversationId (pipelineMetricsRef ?s) ?d = Some ''c1''"
    by (simp add: oneReplyState_c1 reply_event_eval strOrUndefined_def truthyStr_def)
  have "handleDataReceived 1500 ''r2'' ?s (Decoded ?d) = handleAgentReply 1500 ''r2'' ?s ?d"
    by (rule handle_reply) (simp add: isReplyEvent_def reply_event_eval)
  then have "messages (handleDataReceived 1500 ''r2'' ?s (Decoded ?d)) =
          agentReplyUpdater 1500 ''r2'' ?d (pipelineMetricsRef ?s) ''hello'' (messages ?s)"
    by (simp add: handleAgentReply_def reply_event_eval trim_hello)
  also have "\<dots> = map (\<lambda>m. if msg_id m = msg_id ?M then replyMerge 1500 ?d m else m)
                      (rev (messages ?s))"
    using agentReplyUpdater_cases [of "''hello''" "pipelineMetricsRef ?s" ?d "''c1''"] c t
    by simp
  finally show ?thesis by (simp add: M)
qed

lemma trackState_messages:
  "messages trackState =
     [\<lparr>msg_id = ''user-1000-abc'', msg_type = User, msg_text = ''salom'', timestamp = 1000,
       latency = Some (emptyLatency\<lparr>total := Some 500, userSpeechDuration := Some 0\<rparr>),
       conversationId = None\<rparr>] \<and>
   pipelineMetricsRef trackState = []"
  unfolding trackState_def handleEvent.simps user_speech_salom
  by (simp add: initialState_def handleTrackPublished_def trackPublishedUpdater_def truthyNum_def
      emptyLatency_def)

lemma repeated_salom:
  "messages (handleDataReceived 2000 ''def'' trackState
      (Decoded (userSpeechEvent ''salom'' 1000))) = messages trackState \<and>
   lastUserSpeechTimeRef (handleDataReceived 2000 ''def'' trackState
      (Decoded (userSpeechEvent ''salom'' 1000))) = Some 2000"
  by (simp add: trackState_messages event_defs handleDataReceived_def handleData_def
      handleUserSpeech_def userSpeechUpdater_def userSpeechDuplicate_def js_defs Let_def)

lemma republishedState_messages:
  "messages republishedState =
     [\<lparr>msg_id = ''user-1000-abc'', msg_type = User, msg_text = ''salom'', timestamp = 1000,
       latency = Some (emptyLatency\<lparr>total := Some 0, userSpeechDuration := Some 0\<rparr>),
       conversationId = None\<rparr>]"
  unfolding republishedState_def handleEvent.simps
  by (simp add: handleTrackPublished_def repeated_salom trackState_messages truthyNum_def
      trackPublishedUpdater_def emptyLatency_def)

text \<open>
  C6 at the inputs that show the defect. The message hello of conversation \<open>c1\<close>
  holds \<open>llm = 300\<close>; the reply is repeated with \<open>llm = -5\<close>, and the merge
  \<open>data.latency?.llm || msg.latency?.llm\<close> of line 292 stores \<open>-5\<close>, where the
  metrics updater of line 502 asks for a value \<open>> 0\<close>. And the user message salom
  holds \<open>total = 500\<close>, set when the track \<open>TR_1\<close> was published; after the same
  speech has been delivered again at 2000 (it is dropped as a duplicate, but it moves
  the user speech time to 2000) and the track \<open>TR_2\<close> has been published in the same
  millisecond, line 605 has stored the response delay \<open>0\<close> in its place.
\<close>

theorem latency_erased_failing_input:
  "llm (latOf (hd (messages (oneReplyState (Some ''c1'') (emptyLatency\<lparr>llm := Some 300\<rparr>)))))
     = Some 300 \<and>
   llm (latOf (hd (messages (handleDataReceived 1500 ''r2''
       (oneReplyState (Some ''c1'') (emptyLatency\<lparr>llm := Some 300\<rparr>))
       (Decoded (agentReplyEvent ''hello'' (Some ''c1'') 1500
          (Some (emptyLatency\<lparr>llm := Some (- 5)\<rparr>)))))))) = Some (- 5) \<and>
   map (\<lambda>m. total (latOf m)) (messages trackState) = [Some 500] \<and>
   map (\<lambda>m. total (latOf m)) (messages republishedState) = [Some 0]"
  by (simp add: repeated_hello oneReplyState_c1 replyMerge_def reply_event_eval latOf_def
      dataLat_def numOr_def truthyNum_def emptyLatency_def trackState_messages
      republishedState_messages)

section \<open>A timestamp that is not a valid date\<close>

lemma farSpeechFirst_eval:
  "farSpeechFirst =
     initialState\<lparr>userSpeechEndRef := Some 1000, lastUserSpeechTimeRef := Some 1000,
       messages := [\<lparr>msg_id = ''user-1000-abc'', msg_type = User, msg_text = ''salom'',
          timestamp = 8640000000000001,
          latency = Some (emptyLatency\<lparr>userSpeechDuration := Some 0\<rparr>),
          conversationId = None\<rparr>],
       agentResponseStartRef := Some 1000\<rparr>"
  by (simp add: farSpeechFirst_def initialState_def event_defs handleDataReceived_def
      handleData_def handleUserSpeech_def userSpeechUpdater_def js_defs show_defs)

lemma farSpeechRun_eval:
  "messages farSpeechRun =
     [\<lparr>msg_id = ''user-1000-abc'', msg_type = User, msg_text = ''salom'',
        timestamp = 8640000000000001,
        latency = Some (emptyLatency\<lparr>userSpeechDuration := Some 0\<rparr>),
        conversationId = None\<rparr>,
      \<lparr>msg_id = ''user-2000-def'', msg_type = User, msg_text = ''salom'',
        timestamp = 8640000000003000,
        latency = Some (emptyLatency\<lparr>userSpeechDuration := Some 0\<rparr>),
        conversationId = None\<rparr>] \<and>
   pipelineMetricsRef farSpeechRun = []"
  unfolding farSpeechRun_def farSpeechFirst_eval
  by (simp add: initialState_def event_defs handleDataReceived_def
      handleData_def handleUserSpeech_def userSpeechUpdater_def userSpeechDuplicate_def
      js_defs show_defs Let_def)

lemma far_filter_one:
  assumes "msg_type a = User" and "msg_text a = ''salom''"
  shows "filteredMessages [a] = Inr [a]"
  using assms
  by (simp add: filteredMessages_def Let_def hourglass_def trim_def isWhiteSpace_def
      startsWith_def)

lemma far_filter_two:
  assumes "msg_type a = User" and "msg_text a = ''salom''" and "timestamp a = 8640000000000001"
    and "msg_type b = User" and "msg_text b = ''salom''" and "timestamp b = 8640000000003000"
  shows "filteredMessages (a # b # rest) = Inl RangeError"
  using assms
  by (simp add: filteredMessages_def Let_def isNearDuplicate_def hourglass_def trim_def
      isWhiteSpace_def invalidDate_def startsWith_def)

text \<open>
  C9 at the input that shows the defect. Two \<open>user_speech\<close> payloads with the text
  salom arrive, with the timestamps 8640000000000001 and 8640000000003000. The handler
  returns for both, and it keeps both messages, because its own duplicate check asks
  for less than 2000 ms and they are 2999 ms apart. After the first the displayed list
  is computed. After the second the filter of the displayed list, whose window is
  3000 ms, skips the second message as a duplicate, and the log entry of line 97
  evaluates \<open>new Date(msg.timestamp).toISOString()\<close>, which throws a \<open>RangeError\<close>:
  the list is computed outside the \<open>try\<close> block of the handler, and no displayed list
  is produced, neither then nor after a later event (here the reply hello at 3000),
  since the two messages stay in the collection.
\<close>

theorem far_timestamp_failing_input:
  "map msg_text (messages farSpeechFirst) = [''salom''] \<and>
   map timestamp (messages farSpeechFirst) = [8640000000000001] \<and>
   map_sum id (map msg_id) (sortedMessages (messages farSpeechFirst)) = Inr [''user-1000-abc''] \<and>
   map msg_text (messages farSpeechRun) = [''salom'', ''salom''] \<and>
   map timestamp (messages farSpeechRun) = [8640000000000001, 8640000000003000] \<and>
   sortedMessages (messages farSpeechRun) = Inl RangeError \<and>
   sortedMessages (messages (handleDataReceived 3000 ''ghi'' farSpeechRun
      (Decoded (agentReplyEvent ''hello'' None 3000 None)))) = Inl RangeError"
proof -
  let ?d = "agentReplyEvent ''hello'' None 3000 None"
  have a: "map_sum id (map msg_id) (sortedMessages (messages farSpeechFirst)) =
      Inr [''user-1000-abc'']"
    unfolding farSpeechFirst_eval
    by (simp add: sortedMessages_def far_filter_one sortBy_def)
  have b: "sortedMessages (messages farSpeechRun) = Inl RangeError"
    by (simp add: farSpeechRun_eval sortedMessages_def far_filter_two)
  have "handleDataReceived 3000 ''ghi'' farSpeechRun (Decoded ?d) =
          handleAgentReply 3000 ''ghi'' farSpeechRun ?d"
    by (rule handle_reply) (simp add: isReplyEvent_def reply_event_eval)
  then have "messages (handleDataReceived 3000 ''ghi'' farSpeechRun (Decoded ?d)) =
      agentReplyUpdater 3000 ''ghi'' ?d [] ''hello'' (messages farSpeechRun)"
    by (simp add: handleAgentReply_def reply_event_eval trim_hello farSpeechRun_eval)
  also have "\<dots> = messages farSpeechRun @ [newAgentReply 3000 ''ghi'' ?d ''hello'' None]"
    by (rule agentReplyUpdater_no_cid)
       (simp_all add: reply_event_eval strOrUndefined_def truthyStr_def)
  finally have c: "sortedMessages (messages (handleDataReceived 3000 ''ghi'' farSpeechRun
      (Decoded ?d))) = Inl RangeError"
    by (simp add: farSpeechRun_eval sortedMessages_def far_filter_two)
  from a b c show ?thesis
    by (simp add: farSpeechRun_eval) (simp add: farSpeechFirst_eval)
qed

end
